theory Spec2Isabelle
  imports Main "HOL-Library.AList" "HOL-Library.Sublist"
begin

section \<open>Values, errors and collaborator data\<close>

text \<open>
  The raw declarative input is what the hjson parser hands over: nested dictionaries with
  string keys, lists and scalars. Python exceptions are values of \<open>error\<close>; the string
  carried by an exception is the message template of the source, without the formatted
  arguments.
\<close>

datatype pyobj =
    PNone
  | PBool bool
  | PInt int
  | PStr string
  | PList "pyobj list"
  | PDict "(string \<times> pyobj) list"

datatype error =
    ValueError string
  | KeyError string
  | AssertionError
  | OtherError string

text \<open>
  Modelled from the spec: the classes \<open>Register\<close>, \<open>MultiRegister\<close> and \<open>RegBlock\<close>
  (\<open>reggen.register\<close>, \<open>reggen.multi_register\<close>, \<open>reggen.reg_block\<close>) are imported by
  \<open>ip_block.py\<close> but not part of it. \<open>check_regwens\<close> reads \<open>reg.name\<close>, \<open>reg.regwen\<close>,
  \<open>rb.name\<close>, \<open>rb.registers\<close>, \<open>rb.multiregs\<close> and \<open>multi_reg.pregs\<close>; every other
  attribute of a register is kept in \<open>reg_attrs\<close>.
\<close>

record Register =
  reg_name :: string
  regwen :: "string option"
  reg_attrs :: "(string \<times> pyobj) list"

record MultiRegister =
  pregs :: "Register list"

record RegBlock =
  rb_name :: "string option"
  registers :: "Register list"
  multiregs :: "MultiRegister list"

text \<open>
  Modelled from the spec: the class \<open>BusInterfaces\<close> (\<open>reggen.bus_interfaces\<close>) is not in
  \<open>ip_block.py\<close>; these are the attributes that \<open>ip_block.py\<close> reads and writes. The two
  dictionaries are keyed by the device-interface identity, \<open>None\<close> being the unnamed
  interface.
\<close>

record BusInterfaces =
  has_unnamed_host :: bool
  named_hosts :: "string list"
  has_unnamed_device :: bool
  named_devices :: "string list"
  device_async :: "(string option \<times> string) list"
  device_hier_paths :: "(string option \<times> string) list"

text \<open>
  \<open>Version\<close> is either the class of the \<open>semantic_version\<close> library or, when that
  module cannot be imported, the fallback subclass of \<open>str\<close> (lines 18-25).
\<close>

datatype 'sv Version = SemanticVersion 'sv | FallbackVersion string

text \<open>
  The dataclass \<open>IpBlock\<close> (lines 90-103). A Python dictionary is an association list
  in insertion order; \<open>map_of\<close> reads it and \<open>AList.update\<close> is item assignment.
\<close>

record ('p, 'c, 'rb, 'sv) IpBlock =
  name :: string
  regwidth :: int
  params :: 'p
  reg_blocks :: "(string option \<times> 'rb) list"
  bus_interfaces :: BusInterfaces
  clocking :: 'c
  version :: "'sv Version"
  scan :: bool
  scan_reset :: bool
  scan_en :: bool
  node :: string
  alias_impl :: "string option"

section \<open>The regwen audit\<close>

text \<open>
  \<open>IpBlock.check_regwens\<close> (lines 377-413). The function has no \<open>raise\<close> and no
  assignment to \<open>self\<close> or to anything reachable from it, so the embedding is a total
  function of the block. Its results are the returned status and the lines passed to
  \<open>log.error\<close>; the \<open>log.debug\<close> lines are not modelled.
\<close>

definition regwen_names :: "RegBlock \<Rightarrow> string list" where
  "regwen_names rb =
     map reg_name (filter (\<lambda>reg. sublist ''REGWEN'' (reg_name reg)) (registers rb))"

definition regwen_users :: "RegBlock \<Rightarrow> string \<Rightarrow> Register list" where
  "regwen_users rb w =
     filter (\<lambda>reg. regwen reg = Some w) (registers rb) @
     concat (map (\<lambda>multi_reg. filter (\<lambda>reg. regwen reg = Some w) (pregs multi_reg))
                 (multiregs rb))"

definition unused_regwens :: "RegBlock \<Rightarrow> string list" where
  "unused_regwens rb = filter (\<lambda>w. regwen_users rb w = []) (regwen_names rb)"

fun join :: "string \<Rightarrow> string list \<Rightarrow> string" where
  "join sep [] = []"
| "join sep [x] = x"
| "join sep (x # y # ys) = x @ sep @ join sep (y # ys)"

definition unused_message :: "string \<Rightarrow> RegBlock \<Rightarrow> string" where
  "unused_message ip_name rb =
     (let rb_name = (case rb_name rb of None \<Rightarrow> ''default''
                     | Some n \<Rightarrow> if n = [] then ''default'' else n)
      in ''Unused regwen(s) in '' @ ip_name @ '' '' @ rb_name @ '' register block: '' @
         join '', '' (unused_regwens rb))"

fun check_regwens_loop ::
  "string \<Rightarrow> RegBlock list \<Rightarrow> bool \<times> string list \<Rightarrow> bool \<times> string list" where
  "check_regwens_loop ip_name [] st = st"
| "check_regwens_loop ip_name (rb # rbs) (status, errors) =
     (if unused_regwens rb \<noteq> []
      then check_regwens_loop ip_name rbs (False, errors @ [unused_message ip_name rb])
      else check_regwens_loop ip_name rbs (status, errors))"

definition check_regwens_log ::
  "('p, 'c, RegBlock, 'sv) IpBlock \<Rightarrow> bool \<times> string list" where
  "check_regwens_log self = check_regwens_loop (name self) (map snd (reg_blocks self)) (True, [])"

definition check_regwens :: "('p, 'c, RegBlock, 'sv) IpBlock \<Rightarrow> bool" where
  "check_regwens self = fst (check_regwens_log self)"

section \<open>Collaborators\<close>

text \<open>
  \<open>ip_block.py\<close> calls functions of \<open>reggen.lib\<close>, \<open>reggen.params\<close>,
  \<open>reggen.bus_interfaces\<close>, \<open>reggen.clocking\<close> and \<open>reggen.reg_block\<close>, and the optional
  \<open>semantic_version\<close> library. None of them is part of \<open>ip_block.py\<close>, so the embedding
  takes them as a parameter \<open>c\<close>. A call that can raise returns a sum. \<open>apply_alias\<close>
  works on its receiver in place, so it returns the receiver's state also when it raises.
  \<open>semantic_version\<close> is \<open>None\<close> when the import at line 19 raises
  \<open>ModuleNotFoundError\<close>, and the library's constructor otherwise.
\<close>

record ('p, 'c, 'rb, 'sv) collab =
  check_keys :: "pyobj \<Rightarrow> string \<Rightarrow> string list \<Rightarrow> string list \<Rightarrow> error + (string \<times> pyobj) list"
  check_name :: "pyobj \<Rightarrow> string \<Rightarrow> error + string"
  check_int :: "pyobj \<Rightarrow> string \<Rightarrow> error + int"
  check_bool :: "pyobj \<Rightarrow> string \<Rightarrow> error + bool"
  params_from_raw :: "string \<Rightarrow> pyobj \<Rightarrow> error + 'p"
  apply_defaults :: "'p \<Rightarrow> (string \<times> string) list \<Rightarrow> error + 'p"
  bus_from_raw :: "pyobj \<Rightarrow> string \<Rightarrow> error + BusInterfaces"
  clocking_from_raw :: "pyobj \<Rightarrow> string \<Rightarrow> error + 'c"
  new_RegBlock :: "int \<Rightarrow> 'p \<Rightarrow> 'rb"
  build_blocks ::
    "'rb \<Rightarrow> pyobj \<Rightarrow> BusInterfaces \<Rightarrow> 'c \<Rightarrow> bool \<Rightarrow> error + (string option \<times> 'rb) list"
  scrub_alias :: "'rb \<Rightarrow> string \<Rightarrow> error + 'rb"
  apply_alias :: "'rb \<Rightarrow> 'rb \<Rightarrow> string \<Rightarrow> error option \<times> 'rb"
  semantic_version :: "(pyobj \<Rightarrow> error + 'sv) option"
  semantic_version_str :: "'sv \<Rightarrow> string"
  builtin_str :: "pyobj \<Rightarrow> string"
  rb_as_dicts :: "'rb \<Rightarrow> pyobj"
  params_as_dicts :: "'p \<Rightarrow> pyobj"
  bus_as_dicts :: "BusInterfaces \<Rightarrow> pyobj"
  clocking_items :: "'c \<Rightarrow> pyobj"

definition ebind :: "error + 'a \<Rightarrow> ('a \<Rightarrow> error + 'b) \<Rightarrow> error + 'b" where
  "ebind m f = (case m of Inl e \<Rightarrow> Inl e | Inr x \<Rightarrow> f x)"

definition getitem :: "(string \<times> pyobj) list \<Rightarrow> string \<Rightarrow> error + pyobj" where
  \<comment> \<open>\<open>rd[k]\<close>\<close>
  "getitem rd k = (case map_of rd k of None \<Rightarrow> Inl (KeyError k) | Some v \<Rightarrow> Inr v)"

definition get_default :: "(string \<times> pyobj) list \<Rightarrow> string \<Rightarrow> pyobj \<Rightarrow> pyobj" where
  \<comment> \<open>\<open>rd.get(k, d)\<close>\<close>
  "get_default rd k d = (case map_of rd k of None \<Rightarrow> d | Some v \<Rightarrow> v)"

section \<open>Schema tables\<close>

definition REQUIRED_ALIAS_FIELDS :: "string list" where
  "REQUIRED_ALIAS_FIELDS = [''alias_impl'', ''alias_target'', ''registers'', ''bus_interfaces'']"

definition OPTIONAL_ALIAS_FIELDS :: "string list" where
  "OPTIONAL_ALIAS_FIELDS = []"

definition REQUIRED_FIELDS :: "string list" where
  "REQUIRED_FIELDS = [''name'', ''clocking'', ''bus_interfaces'', ''registers'']"

definition OPTIONAL_FIELDS :: "string list" where
  "OPTIONAL_FIELDS =
     [''human_name'', ''one_line_desc'', ''one_paragraph_desc'', ''design_spec'', ''dv_doc'',
      ''hw_checklist'', ''sw_checklist'', ''design_stage'', ''dif_stage'',
      ''verification_stage'', ''notes'', ''version'', ''life_stage'', ''commit_id'',
      ''param_list'', ''regwidth'', ''scan'', ''scan_reset'', ''scan_en'',
      ''SPDX-License-Identifier'']"

section \<open>Construction\<close>

text \<open>
  \<open>Version(value)\<close>, lines 18-25. The fallback class is a subclass of \<open>str\<close> whose
  constructor is \<open>str.__new__\<close>: it accepts every object and keeps \<open>str(value)\<close>.
\<close>

definition py_str :: "('p, 'c, 'rb, 'sv) collab \<Rightarrow> pyobj \<Rightarrow> string" where
  "py_str c v = (case v of PStr s \<Rightarrow> s | _ \<Rightarrow> builtin_str c v)"

definition Version :: "('p, 'c, 'rb, 'sv) collab \<Rightarrow> pyobj \<Rightarrow> error + 'sv Version" where
  "Version c v =
     (case semantic_version c of
        None \<Rightarrow> Inr (FallbackVersion (py_str c v))
      | Some parse \<Rightarrow> (case parse v of Inl e \<Rightarrow> Inl e | Inr sv \<Rightarrow> Inr (SemanticVersion sv)))"

definition version_str :: "('p, 'c, 'rb, 'sv) collab \<Rightarrow> 'sv Version \<Rightarrow> string" where
  \<comment> \<open>\<open>str(self.version)\<close>\<close>
  "version_str c v =
     (case v of FallbackVersion s \<Rightarrow> s | SemanticVersion sv \<Rightarrow> semantic_version_str c sv)"

text \<open>
  \<open>IpBlock.__post_init__\<close>, lines 105-124. A failing \<open>assert\<close> is \<open>AssertionError\<close>.
  The method assigns \<open>self.reg_blocks\<close> and nothing else; \<open>dev_if_names\<close> is a local
  list, and \<open>self.bus_interfaces\<close> is only read.
\<close>

definition post_init ::
  "('p, 'c, 'rb, 'sv) IpBlock \<Rightarrow> error + ('p, 'c, 'rb, 'sv) IpBlock" where
  "post_init self =
     (if reg_blocks self = [] then Inl AssertionError
      else
        let (dev_if_names, self) =
              (if node self \<noteq> []
               then (map Some (filter (\<lambda>i. i = node self) (named_devices (bus_interfaces self))),
                     self\<lparr>reg_blocks :=
                            filter (\<lambda>(k, v). k = Some (node self)) (reg_blocks self)\<rparr>)
               else (map Some (named_devices (bus_interfaces self)), self));
            reg_block_names = map fst (reg_blocks self);
            dev_if_names =
              (if has_unnamed_device (bus_interfaces self) then dev_if_names @ [None]
               else dev_if_names)
        in if set reg_block_names = set dev_if_names then Inr self else Inl AssertionError)"

text \<open>\<open>IpBlock.from_raw\<close>, lines 126-196. \<open>wh\<close> is the argument \<open>where\<close>.\<close>

definition from_raw ::
  "('p, 'c, 'rb, 'sv) collab \<Rightarrow> (string \<times> string) list \<Rightarrow> pyobj \<Rightarrow> string \<Rightarrow> string \<Rightarrow>
     error + ('p, 'c, 'rb, 'sv) IpBlock" where
  "from_raw c param_defaults raw wh nd =
     ebind (check_keys c raw (''block at '' @ wh) REQUIRED_FIELDS OPTIONAL_FIELDS) (\<lambda>rd.
     ebind (getitem rd ''name'') (\<lambda>r_name.
     ebind (check_name c r_name (''name of block at '' @ wh)) (\<lambda>nm.
     let what = nm @ '' block at '' @ wh in
     ebind (case map_of rd ''regwidth'' of
              None \<Rightarrow> Inr 32
            | Some PNone \<Rightarrow> Inr 32
            | Some r_regwidth \<Rightarrow>
                ebind (check_int c r_regwidth (''regwidth field of '' @ what)) (\<lambda>w.
                if w \<le> 0 then Inl (ValueError ''Invalid regwidth field for {}: {} is not positive.'')
                else Inr w)) (\<lambda>rw.
     ebind (params_from_raw c (''parameter list for '' @ what)
              (get_default rd ''param_list'' (PList []))) (\<lambda>ps.
     ebind (case apply_defaults c ps param_defaults of
              Inl (ValueError err) \<Rightarrow> Inl (ValueError ''Failed to apply defaults to params: {}'')
            | Inl (KeyError err) \<Rightarrow> Inl (ValueError ''Failed to apply defaults to params: {}'')
            | Inl e \<Rightarrow> Inl e
            | Inr ps' \<Rightarrow> Inr ps') (\<lambda>ps.
     let init_block = new_RegBlock c rw ps in
     ebind (check_bool c (get_default rd ''scan'' (PBool False)) (''scan field of '' @ what)) (\<lambda>sc.
     ebind (getitem rd ''bus_interfaces'') (\<lambda>r_bus.
     ebind (bus_from_raw c r_bus (''bus_interfaces field of '' @ wh)) (\<lambda>bus.
     ebind (getitem rd ''clocking'') (\<lambda>r_clocking.
     ebind (clocking_from_raw c r_clocking (''clocking field of '' @ what)) (\<lambda>clk.
     ebind (getitem rd ''registers'') (\<lambda>r_registers.
     ebind (build_blocks c init_block r_registers bus clk False) (\<lambda>rbs.
     ebind (check_bool c (get_default rd ''scan_reset'' (PBool False))
              (''scan_reset field of '' @ what)) (\<lambda>sc_reset.
     ebind (check_bool c (get_default rd ''scan_en'' (PBool False))
              (''scan_en field of '' @ what)) (\<lambda>sc_en.
     ebind (Version c (get_default rd ''version'' (PStr ''0.0.0''))) (\<lambda>ver.
     let reg_block_names = map fst rbs;
         dev_if_names = map Some (named_devices bus);
         dev_if_names = (if has_unnamed_device bus then dev_if_names @ [None] else dev_if_names)
     in if set reg_block_names \<noteq> set dev_if_names
        then Inl (ValueError (''IP block {} defines device interfaces, named {} but its '' @
                              ''registers don't match (they are keyed by {}).''))
        else post_init \<lparr>name = nm, regwidth = rw, params = ps, reg_blocks = rbs,
                        bus_interfaces = bus, clocking = clk, version = ver, scan = sc,
                        scan_reset = sc_reset, scan_en = sc_en, node = nd,
                        alias_impl = None\<rparr>))))))))))))))))"

section \<open>Alias merge\<close>

text \<open>
  The check of the interface options, lines 304-312. In
  \<open>alias_bus_interfaces.device_async[block_key] != self.bus_interfaces.device_async[block_key]\<close>
  the left subscript is evaluated first; a missing key raises \<open>KeyError\<close>.
\<close>

definition check_device_async ::
  "BusInterfaces \<Rightarrow> BusInterfaces \<Rightarrow> string option \<Rightarrow> error option" where
  "check_device_async self_bus alias_bus block_key =
     (if device_async self_bus \<noteq> [] then
        if device_async alias_bus = []
        then Some (ValueError ''Missing device_async key in alias interface {} in {}'')
        else (case map_of (device_async alias_bus) block_key of
                None \<Rightarrow> Some (KeyError ''device_async'')
              | Some a \<Rightarrow>
                  (case map_of (device_async self_bus) block_key of
                     None \<Rightarrow> Some (KeyError ''device_async'')
                   | Some b \<Rightarrow>
                       if a \<noteq> b
                       then Some (ValueError ''Inconsistent configuration of interface {} in {}'')
                       else None))
      else None)"

text \<open>
  The loop of lines 302-324 over \<open>alias_reg_blocks.items()\<close>. The block is passed through
  the loop and returned with the raised exception, if any: what the loop had assigned
  before it raised stays assigned.
\<close>

fun alias_loop ::
  "('p, 'c, 'rb, 'sv) collab \<Rightarrow> bool \<Rightarrow> string \<Rightarrow> BusInterfaces \<Rightarrow> (string option \<times> 'rb) list \<Rightarrow>
     ('p, 'c, 'rb, 'sv) IpBlock \<Rightarrow> error option \<times> ('p, 'c, 'rb, 'sv) IpBlock" where
  "alias_loop c scrub wh alias_bus [] self = (None, self)"
| "alias_loop c scrub wh alias_bus ((block_key, alias_block) # rest) self =
     (case check_device_async (bus_interfaces self) alias_bus block_key of
        Some e \<Rightarrow> (Some e, self)
      | None \<Rightarrow>
          if scrub then
            (case scrub_alias c alias_block wh of
               Inl e \<Rightarrow> (Some e, self)
             | Inr scrubbed \<Rightarrow>
                 alias_loop c scrub wh alias_bus rest
                   (self\<lparr>reg_blocks := AList.update block_key scrubbed (reg_blocks self)\<rparr>))
          else
            (case map_of (device_hier_paths alias_bus) block_key of
               None \<Rightarrow> (Some (KeyError ''device_hier_paths''), self)
             | Some hier_path \<Rightarrow>
                 let self = self\<lparr>bus_interfaces := (bus_interfaces self)
                              \<lparr>device_hier_paths :=
                                 AList.update block_key hier_path
                                   (device_hier_paths (bus_interfaces self))\<rparr>\<rparr>
                 in (case map_of (reg_blocks self) block_key of
                       None \<Rightarrow> (Some (KeyError ''reg_blocks''), self)
                     | Some rb \<Rightarrow>
                         (case apply_alias c rb alias_block wh of
                            (Some e, rb') \<Rightarrow>
                              (Some e,
                               self\<lparr>reg_blocks := AList.update block_key rb' (reg_blocks self)\<rparr>)
                          | (None, rb') \<Rightarrow>
                              alias_loop c scrub wh alias_bus rest
                                (self\<lparr>reg_blocks :=
                                        AList.update block_key rb' (reg_blocks self)\<rparr>)))))"

text \<open>
  \<open>IpBlock.alias_from_raw\<close>, lines 216-324. The method returns nothing and works on
  \<open>self\<close>; the embedding returns the exception raised, if any, and \<open>self\<close> as the call
  leaves it.
\<close>

definition alias_from_raw ::
  "('p, 'c, 'rb, 'sv) collab \<Rightarrow> bool \<Rightarrow> pyobj \<Rightarrow> string \<Rightarrow> ('p, 'c, 'rb, 'sv) IpBlock \<Rightarrow>
     error option \<times> ('p, 'c, 'rb, 'sv) IpBlock" where
  "alias_from_raw c scrub raw wh self =
     (case check_keys c raw (''block at '' @ wh) REQUIRED_ALIAS_FIELDS OPTIONAL_ALIAS_FIELDS of
        Inl e \<Rightarrow> (Some e, self)
      | Inr rd \<Rightarrow>
     (case getitem rd ''bus_interfaces'' of
        Inl e \<Rightarrow> (Some e, self)
      | Inr r_bus \<Rightarrow>
     (case bus_from_raw c r_bus (''bus_interfaces of block at '' @ wh) of
        Inl e \<Rightarrow> (Some e, self)
      | Inr alias_bus_interfaces \<Rightarrow>
     if has_unnamed_host alias_bus_interfaces \<or> named_hosts alias_bus_interfaces \<noteq> []
     then (Some (ValueError (''Alias registers cannot be defined for host '' @
                             ''interfaces (in block at {}).'')), self)
     else if has_unnamed_device alias_bus_interfaces \<or> has_unnamed_device (bus_interfaces self)
     then (Some (ValueError ''Alias registers must use named devices (in block at {}).''), self)
     else
       let bus_device_names = set (named_devices (bus_interfaces self));
           alias_bus_device_names = set (named_devices alias_bus_interfaces)
       in
     if \<not> alias_bus_device_names \<subseteq> bus_device_names
     then (Some (ValueError (''Alias file {} refers to device names {} that '' @
                             ''do not map to device names in {}.'')), self)
     else
     (case getitem rd ''alias_impl'' of
        Inl e \<Rightarrow> (Some e, self)
      | Inr r_alias_impl \<Rightarrow>
     (case check_name c r_alias_impl (''alias_impl of block at '' @ wh) of
        Inl e \<Rightarrow> (Some e, self)
      | Inr impl \<Rightarrow>
     let self = self\<lparr>alias_impl := Some impl\<rparr> in
     (case getitem rd ''alias_target'' of
        Inl e \<Rightarrow> (Some e, self)
      | Inr r_alias_target \<Rightarrow>
     (case check_name c r_alias_target (''alias_target of block at '' @ wh) of
        Inl e \<Rightarrow> (Some e, self)
      | Inr alias_target \<Rightarrow>
     if alias_target \<noteq> name self
     then (Some (ValueError (''Alias target block name {} in {} '' @
                             ''does not match block name {}.'')), self)
     else
       let init_block = new_RegBlock c (regwidth self) (params self) in
     (case getitem rd ''registers'' of
        Inl e \<Rightarrow> (Some e, self)
      | Inr r_registers \<Rightarrow>
     (case build_blocks c init_block r_registers (bus_interfaces self) (clocking self) True of
        Inl e \<Rightarrow> (Some e, self)
      | Inr alias_reg_blocks \<Rightarrow>
       let alias_reg_block_names = set (map fst alias_reg_blocks) in
     if \<not> alias_reg_block_names \<subseteq> set (map fst (reg_blocks self))
     then (Some (ValueError (''Alias file {} refers to register blocks {} that '' @
                             ''do not map to register blocks in {}.'')), self)
     else if alias_reg_block_names \<noteq> Some ` alias_bus_device_names
     then (Some (ValueError ''Interface and register block names do not match in {}.''), self)
     else alias_loop c scrub wh alias_bus_interfaces alias_reg_blocks self)))))))))"

section \<open>Serialization\<close>

text \<open>
  \<open>IpBlock._asdict\<close>, lines 336-354. The result is the dictionary \<open>ret\<close> in insertion
  order. The register content is either what \<open>as_dicts\<close> returns for the one block, or a
  dictionary over the keys of \<open>reg_blocks\<close>, which can hold \<open>None\<close>.
\<close>

datatype outval =
    OStr string
  | OInt int
  | OBool bool
  | OObj pyobj
  | OMap "(string option \<times> pyobj) list"

definition asdict ::
  "('p, 'c, 'rb, 'sv) collab \<Rightarrow> ('p, 'c, 'rb, 'sv) IpBlock \<Rightarrow> error + (string \<times> outval) list" where
  "asdict c self =
     ebind (if length (reg_blocks self) = 1 \<and> None \<in> set (map fst (reg_blocks self))
            then (case map_of (reg_blocks self) None of
                    None \<Rightarrow> Inl (KeyError ''None'')
                  | Some rb \<Rightarrow> Inr (OObj (rb_as_dicts c rb)))
            else Inr (OMap (map (\<lambda>(k, v). (k, rb_as_dicts c v)) (reg_blocks self)))) (\<lambda>regs.
     Inr [(''name'', OStr (name self)),
          (''regwidth'', OInt (regwidth self)),
          (''registers'', regs),
          (''param_list'', OObj (params_as_dicts c (params self))),
          (''version'', OStr (version_str c (version self))),
          (''bus_interfaces'', OObj (bus_as_dicts c (bus_interfaces self))),
          (''clocking'', OObj (clocking_items c (clocking self))),
          (''scan'', OBool (scan self)),
          (''scan_reset'', OBool (scan_reset self)),
          (''scan_en'', OBool (scan_en self))])"

section \<open>Sample collaborators and inputs\<close>

text \<open>
  Every theorem below holds for all collaborators. To run the embedding on concrete
  inputs, this section fixes one small set of them: parameters are name and default
  pairs, the clocking is a list of clock names, a register block is a \<open>RegBlock\<close>, and a
  parsed semantic version is its text. A bus-interface entry is a dictionary with
  \<open>direction\<close> and, optionally, \<open>name\<close>, \<open>async\<close> and \<open>hier_path\<close>; a register entry is
  a dictionary with \<open>name\<close> and, optionally, \<open>regwen\<close>. A list of registers builds the
  one block of the unnamed interface, a dictionary of lists one block for each key.
\<close>

definition item_str :: "(string \<times> pyobj) list \<Rightarrow> string \<Rightarrow> string option" where
  "item_str d k = (case map_of d k of Some (PStr s) \<Rightarrow> Some s | _ \<Rightarrow> None)"

definition sample_check_keys ::
  "pyobj \<Rightarrow> string \<Rightarrow> string list \<Rightarrow> string list \<Rightarrow> error + (string \<times> pyobj) list" where
  "sample_check_keys obj what required optional =
     (case obj of
        PDict d \<Rightarrow>
          if list_all (\<lambda>k. k \<in> set (map fst d)) required \<and>
             list_all (\<lambda>k. k \<in> set required \<or> k \<in> set optional) (map fst d)
          then Inr d else Inl (ValueError ''missing or unexpected keys'')
      | _ \<Rightarrow> Inl (ValueError ''expected a dictionary''))"

definition sample_check_name :: "pyobj \<Rightarrow> string \<Rightarrow> error + string" where
  "sample_check_name obj what =
     (case obj of PStr s \<Rightarrow> Inr s | _ \<Rightarrow> Inl (ValueError ''expected a name''))"

definition sample_check_int :: "pyobj \<Rightarrow> string \<Rightarrow> error + int" where
  "sample_check_int obj what =
     (case obj of PInt i \<Rightarrow> Inr i | _ \<Rightarrow> Inl (ValueError ''expected an integer''))"

definition sample_check_bool :: "pyobj \<Rightarrow> string \<Rightarrow> error + bool" where
  "sample_check_bool obj what =
     (case obj of PBool b \<Rightarrow> Inr b | _ \<Rightarrow> Inl (ValueError ''expected a boolean''))"

definition sample_params_from_raw :: "string \<Rightarrow> pyobj \<Rightarrow> error + (string \<times> string) list" where
  "sample_params_from_raw what obj =
     (case obj of
        PList xs \<Rightarrow>
          Inr (map (\<lambda>x. case x of
                          PDict d \<Rightarrow> (case item_str d ''name'' of None \<Rightarrow> [] | Some n \<Rightarrow> n,
                                      case item_str d ''default'' of None \<Rightarrow> [] | Some v \<Rightarrow> v)
                        | _ \<Rightarrow> ([], [])) xs)
      | _ \<Rightarrow> Inl (ValueError ''expected a list''))"

definition sample_apply_defaults ::
  "(string \<times> string) list \<Rightarrow> (string \<times> string) list \<Rightarrow> error + (string \<times> string) list" where
  "sample_apply_defaults ps defaults =
     (if list_all (\<lambda>kv. fst kv \<in> set (map fst ps)) defaults
      then Inr (fold (\<lambda>kv. AList.update (fst kv) (snd kv)) defaults ps)
      else Inl (KeyError ''unknown parameter''))"

definition empty_bus :: BusInterfaces where
  "empty_bus = \<lparr>has_unnamed_host = False, named_hosts = [], has_unnamed_device = False,
                named_devices = [], device_async = [], device_hier_paths = []\<rparr>"

definition sample_add_device :: "(string \<times> pyobj) list \<Rightarrow> BusInterfaces \<Rightarrow> BusInterfaces" where
  "sample_add_device d b =
     (let key = item_str d ''name'' in
      b\<lparr>has_unnamed_device := has_unnamed_device b \<or> key = None,
        named_devices := named_devices b @ (case key of None \<Rightarrow> [] | Some n \<Rightarrow> [n]),
        device_async := (case item_str d ''async'' of
                           None \<Rightarrow> device_async b
                         | Some a \<Rightarrow> AList.update key a (device_async b)),
        device_hier_paths :=
          AList.update key (case item_str d ''hier_path'' of None \<Rightarrow> ''u_reg'' | Some h \<Rightarrow> h)
            (device_hier_paths b)\<rparr>)"

definition sample_add_host :: "(string \<times> pyobj) list \<Rightarrow> BusInterfaces \<Rightarrow> BusInterfaces" where
  "sample_add_host d b =
     (case item_str d ''name'' of
        None \<Rightarrow> b\<lparr>has_unnamed_host := True\<rparr>
      | Some n \<Rightarrow> b\<lparr>named_hosts := named_hosts b @ [n]\<rparr>)"

fun sample_bus_items :: "pyobj list \<Rightarrow> BusInterfaces \<Rightarrow> error + BusInterfaces" where
  "sample_bus_items [] b = Inr b"
| "sample_bus_items (PDict d # xs) b =
     (if item_str d ''direction'' = Some ''host'' then sample_bus_items xs (sample_add_host d b)
      else if item_str d ''direction'' = Some ''device''
      then sample_bus_items xs (sample_add_device d b)
      else Inl (ValueError ''expected a direction''))"
| "sample_bus_items (x # xs) b = Inl (ValueError ''expected a dictionary'')"

definition sample_bus_from_raw :: "pyobj \<Rightarrow> string \<Rightarrow> error + BusInterfaces" where
  "sample_bus_from_raw obj what =
     (case obj of PList xs \<Rightarrow> sample_bus_items xs empty_bus
      | _ \<Rightarrow> Inl (ValueError ''expected a list''))"

definition sample_clocking_from_raw :: "pyobj \<Rightarrow> string \<Rightarrow> error + string list" where
  "sample_clocking_from_raw obj what =
     (case obj of
        PList xs \<Rightarrow> Inr (map (\<lambda>x. case x of PStr s \<Rightarrow> s | _ \<Rightarrow> []) xs)
      | _ \<Rightarrow> Inl (ValueError ''expected a list''))"

definition sample_register :: "pyobj \<Rightarrow> Register" where
  "sample_register obj =
     (case obj of
        PDict d \<Rightarrow>
          \<lparr>reg_name = (case item_str d ''name'' of None \<Rightarrow> [] | Some n \<Rightarrow> n),
           regwen = item_str d ''regwen'',
           reg_attrs = filter (\<lambda>kv. fst kv \<noteq> ''name'' \<and> fst kv \<noteq> ''regwen'') d\<rparr>
      | _ \<Rightarrow> \<lparr>reg_name = [], regwen = None, reg_attrs = []\<rparr>)"

definition sample_add_raw_registers :: "RegBlock \<Rightarrow> pyobj \<Rightarrow> RegBlock" where
  "sample_add_raw_registers block obj =
     block\<lparr>registers :=
             registers block @ (case obj of PList xs \<Rightarrow> map sample_register xs | _ \<Rightarrow> [])\<rparr>"

definition sample_build_blocks ::
  "RegBlock \<Rightarrow> pyobj \<Rightarrow> BusInterfaces \<Rightarrow> string list \<Rightarrow> bool \<Rightarrow>
     error + (string option \<times> RegBlock) list" where
  "sample_build_blocks block obj bus clocks is_alias =
     (case obj of
        PList xs \<Rightarrow> Inr [(None, sample_add_raw_registers block obj)]
      | PDict groups \<Rightarrow>
          Inr (map (\<lambda>kv. (Some (fst kv),
                          sample_add_raw_registers (block\<lparr>rb_name := Some (fst kv)\<rparr>) (snd kv)))
                   groups)
      | _ \<Rightarrow> Inl (ValueError ''expected a list or a dictionary''))"

definition sample_scrub_alias :: "RegBlock \<Rightarrow> string \<Rightarrow> error + RegBlock" where
  "sample_scrub_alias rb what =
     Inr (rb\<lparr>registers := map (\<lambda>r. r\<lparr>reg_attrs := []\<rparr>) (registers rb)\<rparr>)"

definition sample_apply_alias :: "RegBlock \<Rightarrow> RegBlock \<Rightarrow> string \<Rightarrow> error option \<times> RegBlock" where
  "sample_apply_alias rb alias_block what =
     (if map regwen (registers rb) = map regwen (registers alias_block)
      then (None, rb\<lparr>registers := map (\<lambda>ra. (fst ra)\<lparr>reg_name := reg_name (snd ra)\<rparr>)
                                      (zip (registers rb) (registers alias_block))\<rparr>)
      else (Some (ValueError ''alias register structure differs''), rb))"

definition sample_semantic_version :: "pyobj \<Rightarrow> error + string" where
  "sample_semantic_version obj =
     (case obj of
        PStr s \<Rightarrow>
          if s \<noteq> [] \<and> list_all (\<lambda>ch. ch \<in> set ''0123456789.'') s \<and>
             length (filter (\<lambda>ch. ch = CHR ''.'') s) = 2
          then Inr s else Inl (ValueError ''Invalid version string'')
      | _ \<Rightarrow> Inl (ValueError ''Invalid version string''))"

definition sample_builtin_str :: "pyobj \<Rightarrow> string" where
  "sample_builtin_str obj =
     (case obj of PNone \<Rightarrow> ''None'' | PBool b \<Rightarrow> (if b then ''True'' else ''False'')
      | PStr s \<Rightarrow> s | _ \<Rightarrow> ''<object>'')"

definition sample_rb_as_dicts :: "RegBlock \<Rightarrow> pyobj" where
  "sample_rb_as_dicts rb = PList (map (\<lambda>r. PDict [(''name'', PStr (reg_name r))]) (registers rb))"

definition sample ::
  "((string \<times> string) list, string list, RegBlock, string) collab" where
  "sample =
     \<lparr>check_keys = sample_check_keys,
      check_name = sample_check_name,
      check_int = sample_check_int,
      check_bool = sample_check_bool,
      params_from_raw = sample_params_from_raw,
      apply_defaults = sample_apply_defaults,
      bus_from_raw = sample_bus_from_raw,
      clocking_from_raw = sample_clocking_from_raw,
      new_RegBlock = (\<lambda>w ps. \<lparr>rb_name = None, registers = [], multiregs = []\<rparr>),
      build_blocks = sample_build_blocks,
      scrub_alias = sample_scrub_alias,
      apply_alias = sample_apply_alias,
      semantic_version = None,
      semantic_version_str = (\<lambda>s. s),
      builtin_str = sample_builtin_str,
      rb_as_dicts = sample_rb_as_dicts,
      params_as_dicts = (\<lambda>ps. PList (map (\<lambda>kv. PDict [(''name'', PStr (fst kv)),
                                                       (''default'', PStr (snd kv))]) ps)),
      bus_as_dicts = (\<lambda>b. PList (map (\<lambda>n. PDict [(''name'', PStr n)]) (named_devices b))),
      clocking_items = (\<lambda>cs. PList (map PStr cs))\<rparr>"

definition sample_with_library ::
  "((string \<times> string) list, string list, RegBlock, string) collab" where
  "sample_with_library = sample\<lparr>semantic_version := Some sample_semantic_version\<rparr>"

text \<open>
  A block \<open>uart\<close> with the device interfaces \<open>core\<close> and \<open>dma\<close>, the same block with a
  version that is no semantic version, and an alias file for the interface \<open>core\<close>.
\<close>

definition uart_fields :: "(string \<times> pyobj) list" where
  "uart_fields =
     [(''name'', PStr ''uart''),
      (''clocking'', PList [PStr ''clk_i'']),
      (''bus_interfaces'',
         PList [PDict [(''protocol'', PStr ''tlul''), (''direction'', PStr ''device''),
                       (''name'', PStr ''core'')],
                PDict [(''protocol'', PStr ''tlul''), (''direction'', PStr ''device''),
                       (''name'', PStr ''dma'')]]),
      (''registers'',
         PDict [(''core'', PList [PDict [(''name'', PStr ''CTRL''), (''regwen'', PStr ''REGWEN''),
                                         (''swaccess'', PStr ''rw'')],
                                  PDict [(''name'', PStr ''REGWEN''), (''swaccess'', PStr ''rw0c'')]]),
                (''dma'', PList [PDict [(''name'', PStr ''FIFO''), (''swaccess'', PStr ''wo'')]])])]"

definition uart_raw :: pyobj where
  "uart_raw = PDict uart_fields"

definition uart_raw_bad_version :: pyobj where
  "uart_raw_bad_version = PDict (uart_fields @ [(''version'', PStr ''one'')])"

definition uart_alias_bus_raw :: pyobj where
  "uart_alias_bus_raw =
     PList [PDict [(''protocol'', PStr ''tlul''), (''direction'', PStr ''device''),
                   (''name'', PStr ''core''), (''hier_path'', PStr ''u_core'')]]"

definition uart_alias_registers_raw :: pyobj where
  "uart_alias_registers_raw =
     PDict [(''core'', PList [PDict [(''name'', PStr ''CONTROL''), (''regwen'', PStr ''REGWEN'')],
                              PDict [(''name'', PStr ''LOCK'')]])]"

definition uart_alias_fields :: "(string \<times> pyobj) list" where
  "uart_alias_fields =
     [(''alias_impl'', PStr ''uart_hardened''),
      (''alias_target'', PStr ''uart''),
      (''bus_interfaces'', uart_alias_bus_raw),
      (''registers'', uart_alias_registers_raw)]"

definition uart_alias_raw :: pyobj where
  "uart_alias_raw = PDict uart_alias_fields"

text \<open>
  The same alias file with the target \<open>spi\<close>, and with a host interface among its bus
  interfaces.
\<close>

definition spi_alias_fields :: "(string \<times> pyobj) list" where
  "spi_alias_fields =
     [(''alias_impl'', PStr ''uart_hardened''),
      (''alias_target'', PStr ''spi''),
      (''bus_interfaces'', uart_alias_bus_raw),
      (''registers'', uart_alias_registers_raw)]"

definition spi_alias_raw :: pyobj where
  "spi_alias_raw = PDict spi_alias_fields"

definition host_alias_bus_raw :: pyobj where
  "host_alias_bus_raw =
     PList [PDict [(''protocol'', PStr ''tlul''), (''direction'', PStr ''host''),
                   (''name'', PStr ''fetch'')]]"

definition host_alias_fields :: "(string \<times> pyobj) list" where
  "host_alias_fields =
     [(''alias_impl'', PStr ''uart_hardened''),
      (''alias_target'', PStr ''uart''),
      (''bus_interfaces'', host_alias_bus_raw),
      (''registers'', uart_alias_registers_raw)]"

definition host_alias_raw :: pyobj where
  "host_alias_raw = PDict host_alias_fields"

text \<open>
  The block \<open>uart\<close> with a register group \<open>extra\<close> that no bus interface declares, and
  the block \<open>uart\<close> with asynchronous device interfaces.
\<close>

definition uart_bus_raw :: pyobj where
  "uart_bus_raw =
     PList [PDict [(''protocol'', PStr ''tlul''), (''direction'', PStr ''device''),
                   (''name'', PStr ''core'')],
            PDict [(''protocol'', PStr ''tlul''), (''direction'', PStr ''device''),
                   (''name'', PStr ''dma'')]]"

definition uart_registers_raw :: pyobj where
  "uart_registers_raw =
     PDict [(''core'', PList [PDict [(''name'', PStr ''CTRL''), (''regwen'', PStr ''REGWEN''),
                                     (''swaccess'', PStr ''rw'')],
                              PDict [(''name'', PStr ''REGWEN''), (''swaccess'', PStr ''rw0c'')]]),
            (''dma'', PList [PDict [(''name'', PStr ''FIFO''), (''swaccess'', PStr ''wo'')]])]"

definition uart_extra_raw :: pyobj where
  "uart_extra_raw =
     PDict [(''name'', PStr ''uart''),
            (''clocking'', PList [PStr ''clk_i'']),
            (''bus_interfaces'', uart_bus_raw),
            (''registers'',
               PDict [(''core'', PList [PDict [(''name'', PStr ''CTRL'')]]),
                      (''dma'', PList [PDict [(''name'', PStr ''FIFO'')]]),
                      (''extra'', PList [PDict [(''name'', PStr ''SPARE'')]])])]"

definition uart_async_raw :: pyobj where
  "uart_async_raw =
     PDict [(''name'', PStr ''uart''),
            (''clocking'', PList [PStr ''clk_i'']),
            (''bus_interfaces'',
               PList [PDict [(''protocol'', PStr ''tlul''), (''direction'', PStr ''device''),
                             (''name'', PStr ''core''), (''async'', PStr ''clk_a'')],
                      PDict [(''protocol'', PStr ''tlul''), (''direction'', PStr ''device''),
                             (''name'', PStr ''dma''), (''async'', PStr ''clk_b'')]]),
            (''registers'', uart_registers_raw)]"

text \<open>
  An alias file for both interfaces of the asynchronous block. It agrees with the block
  on the clock of \<open>core\<close> and names another clock for \<open>dma\<close>.
\<close>

definition async_alias_raw :: pyobj where
  "async_alias_raw =
     PDict [(''alias_impl'', PStr ''uart_hardened''),
            (''alias_target'', PStr ''uart''),
            (''bus_interfaces'',
               PList [PDict [(''protocol'', PStr ''tlul''), (''direction'', PStr ''device''),
                             (''name'', PStr ''core''), (''async'', PStr ''clk_a'')],
                      PDict [(''protocol'', PStr ''tlul''), (''direction'', PStr ''device''),
                             (''name'', PStr ''dma''), (''async'', PStr ''clk_x'')]]),
            (''registers'',
               PDict [(''core'', PList [PDict [(''name'', PStr ''CONTROL''),
                                               (''regwen'', PStr ''REGWEN'')],
                                        PDict [(''name'', PStr ''LOCK'')]]),
                      (''dma'', PList [PDict [(''name'', PStr ''QUEUE'')]])])]"

text \<open>The block that \<open>from_raw\<close> builds from \<open>uart_raw\<close> with the sample collaborators.\<close>

definition uart_core_block :: RegBlock where
  "uart_core_block =
     \<lparr>rb_name = Some ''core'',
      registers = [\<lparr>reg_name = ''CTRL'', regwen = Some ''REGWEN'',
                     reg_attrs = [(''swaccess'', PStr ''rw'')]\<rparr>,
                   \<lparr>reg_name = ''REGWEN'', regwen = None,
                     reg_attrs = [(''swaccess'', PStr ''rw0c'')]\<rparr>],
      multiregs = []\<rparr>"

definition uart_dma_block :: RegBlock where
  "uart_dma_block =
     \<lparr>rb_name = Some ''dma'',
      registers = [\<lparr>reg_name = ''FIFO'', regwen = None,
                     reg_attrs = [(''swaccess'', PStr ''wo'')]\<rparr>],
      multiregs = []\<rparr>"

definition uart_bus :: BusInterfaces where
  "uart_bus =
     \<lparr>has_unnamed_host = False, named_hosts = [], has_unnamed_device = False,
      named_devices = [''core'', ''dma''], device_async = [],
      device_hier_paths = [(Some ''core'', ''u_reg''), (Some ''dma'', ''u_reg'')]\<rparr>"

definition uart_ip :: "((string \<times> string) list, string list, RegBlock, string) IpBlock" where
  "uart_ip =
     \<lparr>name = ''uart'', regwidth = 32, params = [],
      reg_blocks = [(Some ''core'', uart_core_block), (Some ''dma'', uart_dma_block)],
      bus_interfaces = uart_bus, clocking = [''clk_i''],
      version = FallbackVersion ''0.0.0'', scan = False, scan_reset = False, scan_en = False,
      node = [], alias_impl = None\<rparr>"

text \<open>
  What the sample collaborators make of the alias file: its bus interfaces, its register
  blocks, and the block \<open>uart\<close> after the merge, without and with \<open>scrub\<close>.
\<close>

definition uart_alias_bus :: BusInterfaces where
  "uart_alias_bus =
     \<lparr>has_unnamed_host = False, named_hosts = [], has_unnamed_device = False,
      named_devices = [''core''], device_async = [],
      device_hier_paths = [(Some ''core'', ''u_core'')]\<rparr>"

definition host_alias_bus :: BusInterfaces where
  "host_alias_bus =
     \<lparr>has_unnamed_host = False, named_hosts = [''fetch''], has_unnamed_device = False,
      named_devices = [], device_async = [], device_hier_paths = []\<rparr>"

definition uart_alias_core_block :: RegBlock where
  "uart_alias_core_block =
     \<lparr>rb_name = Some ''core'',
      registers = [\<lparr>reg_name = ''CONTROL'', regwen = Some ''REGWEN'', reg_attrs = []\<rparr>,
                   \<lparr>reg_name = ''LOCK'', regwen = None, reg_attrs = []\<rparr>],
      multiregs = []\<rparr>"

definition uart_merged_core_block :: RegBlock where
  "uart_merged_core_block =
     \<lparr>rb_name = Some ''core'',
      registers = [\<lparr>reg_name = ''CONTROL'', regwen = Some ''REGWEN'',
                     reg_attrs = [(''swaccess'', PStr ''rw'')]\<rparr>,
                   \<lparr>reg_name = ''LOCK'', regwen = None,
                     reg_attrs = [(''swaccess'', PStr ''rw0c'')]\<rparr>],
      multiregs = []\<rparr>"

definition uart_merged_ip ::
  "((string \<times> string) list, string list, RegBlock, string) IpBlock" where
  "uart_merged_ip =
     uart_ip\<lparr>reg_blocks := [(Some ''core'', uart_merged_core_block), (Some ''dma'', uart_dma_block)],
             bus_interfaces := uart_bus\<lparr>device_hier_paths :=
                                 [(Some ''core'', ''u_core''), (Some ''dma'', ''u_reg'')]\<rparr>,
             alias_impl := Some ''uart_hardened''\<rparr>"

definition uart_scrubbed_ip ::
  "((string \<times> string) list, string list, RegBlock, string) IpBlock" where
  "uart_scrubbed_ip =
     uart_ip\<lparr>reg_blocks := [(Some ''core'', uart_alias_core_block), (Some ''dma'', uart_dma_block)],
             alias_impl := Some ''uart_hardened''\<rparr>"

text \<open>The block that \<open>from_raw\<close> builds from \<open>uart_async_raw\<close>.\<close>

definition uart_async_ip ::
  "((string \<times> string) list, string list, RegBlock, string) IpBlock" where
  "uart_async_ip =
     uart_ip\<lparr>bus_interfaces :=
               uart_bus\<lparr>device_async := [(Some ''core'', ''clk_a''), (Some ''dma'', ''clk_b'')]\<rparr>\<rparr>"

text \<open>
  The attributes of a block that the sample \<open>apply_alias\<close> compares or keeps: for each
  register its \<open>regwen\<close> and its other attributes, in order.
\<close>

definition reg_structure :: "RegBlock \<Rightarrow> (string option \<times> (string \<times> pyobj) list) list" where
  "reg_structure rb = map (\<lambda>r. (regwen r, reg_attrs r)) (registers rb)"

text \<open>
  A block whose register \<open>CTRL_REGWEN\<close> gates the registers of a multi-register, and the
  same block without the multi-register.
\<close>

definition gate_block :: RegBlock where
  "gate_block =
     \<lparr>rb_name = None,
      registers = [\<lparr>reg_name = ''CTRL_REGWEN'', regwen = None, reg_attrs = []\<rparr>],
      multiregs = [\<lparr>pregs = [\<lparr>reg_name = ''KEY_0'', regwen = Some ''CTRL_REGWEN'',
                                reg_attrs = []\<rparr>,
                              \<lparr>reg_name = ''KEY_1'', regwen = Some ''CTRL_REGWEN'',
                                reg_attrs = []\<rparr>]\<rparr>]\<rparr>"

definition unused_gate_block :: RegBlock where
  "unused_gate_block = gate_block\<lparr>multiregs := []\<rparr>"

definition single_block_ip :: "'rb \<Rightarrow> (unit, unit, 'rb, unit) IpBlock" where
  "single_block_ip rb =
     \<lparr>name = ''keymgr'', regwidth = 32, params = (), reg_blocks = [(None, rb)],
      bus_interfaces = empty_bus\<lparr>has_unnamed_device := True\<rparr>, clocking = (),
      version = FallbackVersion ''0.0.0'', scan = False, scan_reset = False, scan_en = False,
      node = [], alias_impl = None\<rparr>"

section \<open>Evaluation on the sample inputs\<close>

lemmas sample_defs =
  sample_def sample_with_library_def sample_check_keys_def sample_check_name_def
  sample_check_int_def sample_check_bool_def sample_params_from_raw_def
  sample_apply_defaults_def sample_bus_from_raw_def sample_add_device_def sample_add_host_def
  sample_clocking_from_raw_def sample_register_def sample_add_raw_registers_def
  sample_build_blocks_def sample_scrub_alias_def sample_apply_alias_def
  sample_semantic_version_def sample_builtin_str_def sample_rb_as_dicts_def
  item_str_def empty_bus_def uart_fields_def uart_raw_def uart_raw_bad_version_def
  uart_alias_bus_raw_def uart_alias_registers_raw_def uart_alias_fields_def uart_alias_raw_def
  spi_alias_fields_def spi_alias_raw_def host_alias_bus_raw_def host_alias_fields_def
  host_alias_raw_def uart_core_block_def uart_dma_block_def uart_bus_def uart_ip_def
  uart_alias_bus_def host_alias_bus_def uart_alias_core_block_def uart_merged_core_block_def
  uart_merged_ip_def uart_scrubbed_ip_def uart_bus_raw_def uart_registers_raw_def
  uart_extra_raw_def uart_async_raw_def async_alias_raw_def uart_async_ip_def
  REQUIRED_FIELDS_def OPTIONAL_FIELDS_def REQUIRED_ALIAS_FIELDS_def OPTIONAL_ALIAS_FIELDS_def
  getitem_def get_default_def Version_def py_str_def post_init_def ebind_def
  check_device_async_def

lemma from_raw_uart: "from_raw sample [] uart_raw ''uart.hjson'' [] = Inr uart_ip"
  by (simp add: from_raw_def sample_defs Let_def)

lemma from_raw_uart_core:
  "from_raw sample [] uart_raw ''uart.hjson'' ''core'' =
     Inr (uart_ip\<lparr>reg_blocks := [(Some ''core'', uart_core_block)], node := ''core''\<rparr>)"
  by (simp add: from_raw_def sample_defs Let_def)

lemma from_raw_uart_spi:
  "from_raw sample [] uart_raw ''uart.hjson'' ''spi'' =
     Inr (uart_ip\<lparr>reg_blocks := [], node := ''spi''\<rparr>)"
  by (simp add: from_raw_def sample_defs Let_def)

lemma alias_uart_merge:
  "alias_from_raw sample False uart_alias_raw ''alias.hjson'' uart_ip = (None, uart_merged_ip)"
  by (simp add: alias_from_raw_def sample_defs Let_def)

lemma alias_uart_scrub:
  "alias_from_raw sample True uart_alias_raw ''alias.hjson'' uart_ip = (None, uart_scrubbed_ip)"
  by (simp add: alias_from_raw_def sample_defs Let_def)

lemma uart_alias_checked:
  "check_keys sample uart_alias_raw (''block at '' @ ''alias.hjson'')
     REQUIRED_ALIAS_FIELDS OPTIONAL_ALIAS_FIELDS = Inr uart_alias_fields"
  "getitem uart_alias_fields ''bus_interfaces'' = Inr uart_alias_bus_raw"
  "bus_from_raw sample uart_alias_bus_raw (''bus_interfaces of block at '' @ ''alias.hjson'') =
     Inr uart_alias_bus"
  "getitem uart_alias_fields ''registers'' = Inr uart_alias_registers_raw"
  "build_blocks sample (new_RegBlock sample (regwidth uart_ip) (params uart_ip))
     uart_alias_registers_raw (bus_interfaces uart_ip) (clocking uart_ip) True =
     Inr [(Some ''core'', uart_alias_core_block)]"
  by (simp_all add: sample_defs)

lemma map_fst_zip_same:
  "length xs = length ys \<Longrightarrow> map (\<lambda>p. g (fst p)) (zip xs ys) = map g xs"
  by (induction xs ys rule: list_induct2) simp_all

lemma sample_apply_alias_structure:
  "apply_alias sample rb a wh = (None, rb') \<Longrightarrow> reg_structure rb' = reg_structure rb"
proof -
  assume ok: "apply_alias sample rb a wh = (None, rb')"
  then have eq: "map regwen (registers rb) = map regwen (registers a)"
    and rb': "rb' = rb\<lparr>registers := map (\<lambda>ra. (fst ra)\<lparr>reg_name := reg_name (snd ra)\<rparr>)
                                      (zip (registers rb) (registers a))\<rparr>"
    by (auto simp: sample_def sample_apply_alias_def split: if_splits)
  from eq have len: "length (registers rb) = length (registers a)"
    by (rule map_eq_imp_length_eq)
  show ?thesis
    unfolding reg_structure_def rb'
    using map_fst_zip_same [OF len, of "\<lambda>r. (regwen r, reg_attrs r)"] by (simp add: o_def)
qed

section \<open>Properties of the regwen audit\<close>

lemma check_regwens_loop_status:
  "fst (check_regwens_loop n rbs (status, errors)) \<longleftrightarrow>
     status \<and> (\<forall>rb \<in> set rbs. unused_regwens rb = [])"
  by (induction rbs arbitrary: status errors) auto

lemma unused_regwens_empty_iff:
  "unused_regwens rb = [] \<longleftrightarrow>
     (\<forall>reg \<in> set (registers rb). sublist ''REGWEN'' (reg_name reg) \<longrightarrow>
        (\<exists>u \<in> set (registers rb) \<union> (\<Union>m \<in> set (multiregs rb). set (pregs m)).
           regwen u = Some (reg_name reg)))"
  by (simp add: unused_regwens_def regwen_names_def regwen_users_def filter_empty_conv
      Bex_def Ball_def) blast

text \<open>
  C9. \<open>check_regwens\<close> is a total function of the block: it cannot raise, and it returns
  nothing but the status, so the block is as it was. It returns false if and only if some
  register block has a register whose name contains \<open>REGWEN\<close> and no register of that
  block, among its plain registers and the registers of its multi-registers, has that name
  as its \<open>regwen\<close>.
\<close>

theorem check_regwens_false_iff:
  "\<not> check_regwens self \<longleftrightarrow>
     (\<exists>rb \<in> snd ` set (reg_blocks self). \<exists>reg \<in> set (registers rb).
        sublist ''REGWEN'' (reg_name reg) \<and>
        (\<forall>u \<in> set (registers rb) \<union> (\<Union>m \<in> set (multiregs rb). set (pregs m)).
           regwen u \<noteq> Some (reg_name reg)))"
  unfolding check_regwens_def check_regwens_log_def check_regwens_loop_status
  by (simp add: unused_regwens_empty_iff)

theorem check_regwens_false_iff_witness:
  "\<not> check_regwens (single_block_ip unused_gate_block) \<and>
   check_regwens (single_block_ip gate_block)"
  using check_regwens_false_iff [of "single_block_ip unused_gate_block"]
    check_regwens_false_iff [of "single_block_ip gate_block"]
  by (simp add: single_block_ip_def unused_gate_block_def gate_block_def sublist_Cons_right)

section \<open>Properties of construction\<close>

lemma ebind_simps [simp]: "ebind (Inl e) f = Inl e" "ebind (Inr x) f = f x"
  by (simp_all add: ebind_def)

lemma ebind_Inr_iff: "ebind m f = Inr y \<longleftrightarrow> (\<exists>x. m = Inr x \<and> f x = Inr y)"
  by (cases m) simp_all

lemma if_Inl_Inr_iff: "(if b then Inl e else m) = Inr y \<longleftrightarrow> \<not> b \<and> m = Inr y"
  by simp

lemma isl_ebind_cong:
  "(\<And>x. m = Inr x \<Longrightarrow> isl (f x) = isl (g x)) \<Longrightarrow> isl (ebind m f) = isl (ebind m g)"
  by (cases m) simp_all

lemma post_init_no_node:
  assumes "post_init self = Inr ip" and "node self = []"
  shows "ip = self"
    and "fst ` set (reg_blocks ip) =
           Some ` set (named_devices (bus_interfaces ip)) \<union>
           (if has_unnamed_device (bus_interfaces ip) then {None} else {})"
  using assms by (auto simp: post_init_def Let_def split: if_splits)

lemma post_init_node:
  assumes "post_init self = Inr ip" and "node self \<noteq> []"
  shows "ip = self\<lparr>reg_blocks := filter (\<lambda>(k, v). k = Some (node self)) (reg_blocks self)\<rparr>"
    and "\<not> has_unnamed_device (bus_interfaces ip)"
    and "fst ` set (reg_blocks ip) =
           Some ` (set (named_devices (bus_interfaces ip)) \<inter> {node self})"
proof -
  let ?kept = "filter (\<lambda>(k, v). k = Some (node self)) (reg_blocks self)"
  let ?names = "filter (\<lambda>i. i = node self) (named_devices (bus_interfaces self))"
  from assms have ne: "reg_blocks self \<noteq> []"
    by (auto simp: post_init_def split: if_splits)
  from assms ne have eq:
    "set (map fst ?kept) =
       set (if has_unnamed_device (bus_interfaces self) then map Some ?names @ [None]
            else map Some ?names)"
    and ip: "ip = self\<lparr>reg_blocks := ?kept\<rparr>"
    by (auto simp: post_init_def Let_def split: if_splits)
  show "ip = self\<lparr>reg_blocks := ?kept\<rparr>" by (rule ip)
  have no_None: "None \<notin> set (map fst ?kept)" by auto
  show un: "\<not> has_unnamed_device (bus_interfaces ip)"
  proof
    assume "has_unnamed_device (bus_interfaces ip)"
    with ip eq have "None \<in> set (map fst ?kept)" by simp
    with no_None show False by contradiction
  qed
  have "set ?names = set (named_devices (bus_interfaces self)) \<inter> {node self}" by auto
  with eq un ip show "fst ` set (reg_blocks ip) =
           Some ` (set (named_devices (bus_interfaces ip)) \<inter> {node self})"
    by simp
qed

lemma post_init_fields:
  assumes "post_init self = Inr ip"
  shows "ip = self\<lparr>reg_blocks := reg_blocks ip\<rparr>"
    and "reg_blocks ip =
           (if node self = [] then reg_blocks self
            else filter (\<lambda>(k, v). k = Some (node self)) (reg_blocks self))"
proof -
  show "ip = self\<lparr>reg_blocks := reg_blocks ip\<rparr>"
  proof (cases "node self = []")
    case True
    with assms have "ip = self" by (rule post_init_no_node(1))
    then show ?thesis by simp
  next
    case False
    with assms
    have "ip = self\<lparr>reg_blocks := filter (\<lambda>(k, v). k = Some (node self)) (reg_blocks self)\<rparr>"
      by (rule post_init_node(1))
    then show ?thesis by simp
  qed
  show "reg_blocks ip =
           (if node self = [] then reg_blocks self
            else filter (\<lambda>(k, v). k = Some (node self)) (reg_blocks self))"
  proof (cases "node self = []")
    case True
    with assms have "ip = self" by (rule post_init_no_node(1))
    with True show ?thesis by simp
  next
    case False
    with assms
    have "ip = self\<lparr>reg_blocks := filter (\<lambda>(k, v). k = Some (node self)) (reg_blocks self)\<rparr>"
      by (rule post_init_node(1))
    with False show ?thesis by simp
  qed
qed

lemma from_raw_Inr:
  assumes "from_raw c pd raw wh nd = Inr ip"
  obtains rd nm rw ps rbs bus clk ver sc sc_reset sc_en where
    "check_keys c raw (''block at '' @ wh) REQUIRED_FIELDS OPTIONAL_FIELDS = Inr rd"
    and "Version c (get_default rd ''version'' (PStr ''0.0.0'')) = Inr ver"
    and "set (map fst rbs) =
           set (if has_unnamed_device bus then map Some (named_devices bus) @ [None]
                else map Some (named_devices bus))"
    and "post_init \<lparr>name = nm, regwidth = rw, params = ps, reg_blocks = rbs,
                bus_interfaces = bus, clocking = clk, version = ver, scan = sc,
                scan_reset = sc_reset, scan_en = sc_en, node = nd,
                alias_impl = None\<rparr> = Inr ip"
  using assms unfolding from_raw_def Let_def ebind_Inr_iff if_Inl_Inr_iff not_not
  by blast

lemma from_raw_pre:
  assumes "from_raw c pd raw wh nd = Inr ip"
  obtains rd pre where
    "check_keys c raw (''block at '' @ wh) REQUIRED_FIELDS OPTIONAL_FIELDS = Inr rd"
    and "Version c (get_default rd ''version'' (PStr ''0.0.0'')) = Inr (version pre)"
    and "fst ` set (reg_blocks pre) =
           Some ` set (named_devices (bus_interfaces pre)) \<union>
           (if has_unnamed_device (bus_interfaces pre) then {None} else {})"
    and "node pre = nd" and "alias_impl pre = None"
    and "post_init pre = Inr ip"
proof -
  from assms obtain rd nm rw ps rbs bus clk ver sc sc_reset sc_en where
    rd: "check_keys c raw (''block at '' @ wh) REQUIRED_FIELDS OPTIONAL_FIELDS = Inr rd"
    and ver: "Version c (get_default rd ''version'' (PStr ''0.0.0'')) = Inr ver"
    and bij: "set (map fst rbs) =
           set (if has_unnamed_device bus then map Some (named_devices bus) @ [None]
                else map Some (named_devices bus))"
    and post: "post_init \<lparr>name = nm, regwidth = rw, params = ps, reg_blocks = rbs,
                bus_interfaces = bus, clocking = clk, version = ver, scan = sc,
                scan_reset = sc_reset, scan_en = sc_en, node = nd,
                alias_impl = None\<rparr> = Inr ip"
    by (rule from_raw_Inr)
  let ?pre = "\<lparr>name = nm, regwidth = rw, params = ps, reg_blocks = rbs,
                bus_interfaces = bus, clocking = clk, version = ver, scan = sc,
                scan_reset = sc_reset, scan_en = sc_en, node = nd,
                alias_impl = None\<rparr>"
  from bij have "fst ` set (reg_blocks ?pre) =
           Some ` set (named_devices (bus_interfaces ?pre)) \<union>
           (if has_unnamed_device (bus_interfaces ?pre) then {None} else {})"
    by (simp split: if_splits)
  with rd ver post show thesis
    by (intro that [of rd ?pre]) simp_all
qed

lemma from_raw_built:
  assumes "from_raw c pd raw wh nd = Inr ip"
  obtains rd r_bus r_registers nm rw ps rbs bus clk ver sc sc_reset sc_en where
    "check_keys c raw (''block at '' @ wh) REQUIRED_FIELDS OPTIONAL_FIELDS = Inr rd"
    and "getitem rd ''bus_interfaces'' = Inr r_bus"
    and "bus_from_raw c r_bus (''bus_interfaces field of '' @ wh) = Inr bus"
    and "getitem rd ''registers'' = Inr r_registers"
    and "build_blocks c (new_RegBlock c rw ps) r_registers bus clk False = Inr rbs"
    and "set (map fst rbs) =
           set (if has_unnamed_device bus then map Some (named_devices bus) @ [None]
                else map Some (named_devices bus))"
    and "post_init \<lparr>name = nm, regwidth = rw, params = ps, reg_blocks = rbs,
                bus_interfaces = bus, clocking = clk, version = ver, scan = sc,
                scan_reset = sc_reset, scan_en = sc_en, node = nd,
                alias_impl = None\<rparr> = Inr ip"
  using assms unfolding from_raw_def Let_def ebind_Inr_iff if_Inl_Inr_iff not_not
  by blast

text \<open>
  C1, as amended. If \<open>from_raw\<close> returns a block, its bus interfaces are those that
  \<open>BusInterfaces.from_raw\<close> returned for the input, unrestricted, and the register blocks
  that \<open>RegBlock.build_blocks\<close> returned for the input have exactly the declared
  device-interface identities as keys (the named devices, and \<open>None\<close> if there is an
  unnamed device): when the two differ, \<open>from_raw\<close> returns no block. Without a node
  selector the mapping of the block is the built one. With a node selector it is the
  built one restricted to the entries of that key, and there is no unnamed device.
  The same holds for a block that \<open>__post_init__\<close> accepts, whoever constructed it: the
  bus interfaces are as given; without a node selector the block is as given and its keys
  are exactly the declared identities; with one, the mapping is restricted to that key.
\<close>

theorem from_raw_keys:
  "(from_raw c pd raw wh nd = Inr ip \<longrightarrow>
      (\<exists>rd r_bus r_registers rbs.
           check_keys c raw (''block at '' @ wh) REQUIRED_FIELDS OPTIONAL_FIELDS = Inr rd \<and>
           getitem rd ''bus_interfaces'' = Inr r_bus \<and>
           bus_from_raw c r_bus (''bus_interfaces field of '' @ wh) = Inr (bus_interfaces ip) \<and>
           getitem rd ''registers'' = Inr r_registers \<and>
           build_blocks c (new_RegBlock c (regwidth ip) (params ip)) r_registers
             (bus_interfaces ip) (clocking ip) False = Inr rbs \<and>
           fst ` set rbs =
             Some ` set (named_devices (bus_interfaces ip)) \<union>
             (if has_unnamed_device (bus_interfaces ip) then {None} else {}) \<and>
           node ip = nd \<and>
           (nd = [] \<longrightarrow>
              reg_blocks ip = rbs \<and>
              fst ` set (reg_blocks ip) =
                Some ` set (named_devices (bus_interfaces ip)) \<union>
                (if has_unnamed_device (bus_interfaces ip) then {None} else {})) \<and>
           (nd \<noteq> [] \<longrightarrow>
              reg_blocks ip = filter (\<lambda>(k, v). k = Some nd) rbs \<and>
              \<not> has_unnamed_device (bus_interfaces ip) \<and>
              fst ` set (reg_blocks ip) =
                Some ` (set (named_devices (bus_interfaces ip)) \<inter> {nd})))) \<and>
   (post_init self = Inr ip' \<longrightarrow>
      bus_interfaces ip' = bus_interfaces self \<and>
      (node self = [] \<longrightarrow>
         ip' = self \<and>
         fst ` set (reg_blocks ip') =
           Some ` set (named_devices (bus_interfaces ip')) \<union>
           (if has_unnamed_device (bus_interfaces ip') then {None} else {})) \<and>
      (node self \<noteq> [] \<longrightarrow>
         reg_blocks ip' = filter (\<lambda>(k, v). k = Some (node self)) (reg_blocks self) \<and>
         \<not> has_unnamed_device (bus_interfaces ip') \<and>
         fst ` set (reg_blocks ip') =
           Some ` (set (named_devices (bus_interfaces ip')) \<inter> {node self})))"
proof (intro conjI impI)
  assume ok: "from_raw c pd raw wh nd = Inr ip"
  then obtain rd r_bus r_registers nm rw ps rbs bus clk ver sc sc_reset sc_en where
    rd: "check_keys c raw (''block at '' @ wh) REQUIRED_FIELDS OPTIONAL_FIELDS = Inr rd"
    and r_bus: "getitem rd ''bus_interfaces'' = Inr r_bus"
    and bus: "bus_from_raw c r_bus (''bus_interfaces field of '' @ wh) = Inr bus"
    and r_regs: "getitem rd ''registers'' = Inr r_registers"
    and built: "build_blocks c (new_RegBlock c rw ps) r_registers bus clk False = Inr rbs"
    and bij: "set (map fst rbs) =
           set (if has_unnamed_device bus then map Some (named_devices bus) @ [None]
                else map Some (named_devices bus))"
    and post: "post_init \<lparr>name = nm, regwidth = rw, params = ps, reg_blocks = rbs,
                bus_interfaces = bus, clocking = clk, version = ver, scan = sc,
                scan_reset = sc_reset, scan_en = sc_en, node = nd,
                alias_impl = None\<rparr> = Inr ip"
    by (rule from_raw_built)
  let ?pre = "\<lparr>name = nm, regwidth = rw, params = ps, reg_blocks = rbs,
                bus_interfaces = bus, clocking = clk, version = ver, scan = sc,
                scan_reset = sc_reset, scan_en = sc_en, node = nd,
                alias_impl = None\<rparr>"
  from post have same: "ip = ?pre\<lparr>reg_blocks := reg_blocks ip\<rparr>"
    and kept: "reg_blocks ip =
           (if node ?pre = [] then reg_blocks ?pre
            else filter (\<lambda>(k, v). k = Some (node ?pre)) (reg_blocks ?pre))"
    by (rule post_init_fields)+
  from same have fields: "bus_interfaces ip = bus" "regwidth ip = rw" "params ip = ps"
    "clocking ip = clk" "node ip = nd"
    by (cases ip; simp)+
  from bij fields have keys: "fst ` set rbs =
             Some ` set (named_devices (bus_interfaces ip)) \<union>
             (if has_unnamed_device (bus_interfaces ip) then {None} else {})"
    by (simp split: if_splits)
  have no_node: "nd = [] \<longrightarrow>
              reg_blocks ip = rbs \<and>
              fst ` set (reg_blocks ip) =
                Some ` set (named_devices (bus_interfaces ip)) \<union>
                (if has_unnamed_device (bus_interfaces ip) then {None} else {})"
    using kept keys by simp
  have with_node: "nd \<noteq> [] \<longrightarrow>
              reg_blocks ip = filter (\<lambda>(k, v). k = Some nd) rbs \<and>
              \<not> has_unnamed_device (bus_interfaces ip) \<and>
              fst ` set (reg_blocks ip) =
                Some ` (set (named_devices (bus_interfaces ip)) \<inter> {nd})"
    using kept post_init_node(2,3) [OF post] by simp
  from rd r_bus bus r_regs built keys no_node with_node fields
  show "\<exists>rd r_bus r_registers rbs.
           check_keys c raw (''block at '' @ wh) REQUIRED_FIELDS OPTIONAL_FIELDS = Inr rd \<and>
           getitem rd ''bus_interfaces'' = Inr r_bus \<and>
           bus_from_raw c r_bus (''bus_interfaces field of '' @ wh) = Inr (bus_interfaces ip) \<and>
           getitem rd ''registers'' = Inr r_registers \<and>
           build_blocks c (new_RegBlock c (regwidth ip) (params ip)) r_registers
             (bus_interfaces ip) (clocking ip) False = Inr rbs \<and>
           fst ` set rbs =
             Some ` set (named_devices (bus_interfaces ip)) \<union>
             (if has_unnamed_device (bus_interfaces ip) then {None} else {}) \<and>
           node ip = nd \<and>
           (nd = [] \<longrightarrow>
              reg_blocks ip = rbs \<and>
              fst ` set (reg_blocks ip) =
                Some ` set (named_devices (bus_interfaces ip)) \<union>
                (if has_unnamed_device (bus_interfaces ip) then {None} else {})) \<and>
           (nd \<noteq> [] \<longrightarrow>
              reg_blocks ip = filter (\<lambda>(k, v). k = Some nd) rbs \<and>
              \<not> has_unnamed_device (bus_interfaces ip) \<and>
              fst ` set (reg_blocks ip) =
                Some ` (set (named_devices (bus_interfaces ip)) \<inter> {nd}))"
    by blast
next
  assume post: "post_init self = Inr ip'"
  then have "ip' = self\<lparr>reg_blocks := reg_blocks ip'\<rparr>" by (rule post_init_fields(1))
  then show "bus_interfaces ip' = bus_interfaces self"
    by (cases self; cases ip'; simp)
next
  assume post: "post_init self = Inr ip'" and no: "node self = []"
  then show "ip' = self" by (rule post_init_no_node(1))
next
  assume post: "post_init self = Inr ip'" and no: "node self = []"
  then show "fst ` set (reg_blocks ip') =
           Some ` set (named_devices (bus_interfaces ip')) \<union>
           (if has_unnamed_device (bus_interfaces ip') then {None} else {})"
    by (rule post_init_no_node(2))
next
  assume post: "post_init self = Inr ip'" and nd: "node self \<noteq> []"
  then have "ip' = self\<lparr>reg_blocks :=
                filter (\<lambda>(k, v). k = Some (node self)) (reg_blocks self)\<rparr>"
    by (rule post_init_node(1))
  then show "reg_blocks ip' = filter (\<lambda>(k, v). k = Some (node self)) (reg_blocks self)"
    by simp
next
  assume post: "post_init self = Inr ip'" and nd: "node self \<noteq> []"
  then show "\<not> has_unnamed_device (bus_interfaces ip')" by (rule post_init_node(2))
next
  assume post: "post_init self = Inr ip'" and nd: "node self \<noteq> []"
  then show "fst ` set (reg_blocks ip') =
           Some ` (set (named_devices (bus_interfaces ip')) \<inter> {node self})"
    by (rule post_init_node(3))
qed

theorem from_raw_keys_witness:
  "from_raw sample [] uart_raw ''uart.hjson'' [] = Inr uart_ip \<and>
   post_init uart_ip = Inr uart_ip \<and>
   reg_blocks uart_ip = [(Some ''core'', uart_core_block), (Some ''dma'', uart_dma_block)] \<and>
   named_devices (bus_interfaces uart_ip) = [''core'', ''dma''] \<and>
   from_raw sample [] uart_raw ''uart.hjson'' ''core'' =
     Inr (uart_ip\<lparr>reg_blocks := [(Some ''core'', uart_core_block)], node := ''core''\<rparr>) \<and>
   post_init (uart_ip\<lparr>node := ''core''\<rparr>) =
     Inr (uart_ip\<lparr>reg_blocks := [(Some ''core'', uart_core_block)], node := ''core''\<rparr>) \<and>
   fst ` set (reg_blocks
     (uart_ip\<lparr>reg_blocks := [(Some ''core'', uart_core_block)], node := ''core''\<rparr>)) =
   Some ` (set [''core'', ''dma''] \<inter> {''core''}) \<and>
   from_raw sample [] uart_extra_raw ''uart.hjson'' [] =
     Inl (ValueError (''IP block {} defines device interfaces, named {} but its '' @
                      ''registers don't match (they are keyed by {}).''))"
proof -
  have inside: "Some ''extra'' \<in> {Some ''core'', Some ''dma'', Some ''extra''}" by simp
  have outside: "Some ''extra'' \<notin> {Some ''core'', Some ''dma''}" by simp
  from inside outside
  have ne: "{Some ''core'', Some ''dma'', Some ''extra''} \<noteq> {Some ''core'', Some ''dma''}"
    by metis
  have extra: "from_raw sample [] uart_extra_raw ''uart.hjson'' [] =
     Inl (ValueError (''IP block {} defines device interfaces, named {} but its '' @
                      ''registers don't match (they are keyed by {}).''))"
    by (simp add: from_raw_def sample_defs Let_def ne)
  have p1: "post_init uart_ip = Inr uart_ip"
    by (simp add: sample_defs)
  have p2: "post_init (uart_ip\<lparr>node := ''core''\<rparr>) =
     Inr (uart_ip\<lparr>reg_blocks := [(Some ''core'', uart_core_block)], node := ''core''\<rparr>)"
    by (simp add: sample_defs)
  from from_raw_keys [of sample "[]" uart_raw "''uart.hjson''" "[]" uart_ip uart_ip uart_ip]
    from_raw_keys [of sample "[]" uart_raw "''uart.hjson''" "''core''"
      "uart_ip\<lparr>reg_blocks := [(Some ''core'', uart_core_block)], node := ''core''\<rparr>"
      "uart_ip\<lparr>node := ''core''\<rparr>"
      "uart_ip\<lparr>reg_blocks := [(Some ''core'', uart_core_block)], node := ''core''\<rparr>"]
    from_raw_uart from_raw_uart_core extra p1 p2
  show ?thesis by (simp add: uart_ip_def uart_bus_def)
qed

text \<open>
  The claim C1 as stated fails with a node selector: built for the node \<open>core\<close>, the
  block \<open>uart\<close> has the one key \<open>core\<close>, and its bus interfaces still declare \<open>core\<close>
  and \<open>dma\<close>.
\<close>

theorem from_raw_keys_counterexample:
  "from_raw sample [] uart_raw ''uart.hjson'' ''core'' =
     Inr (uart_ip\<lparr>reg_blocks := [(Some ''core'', uart_core_block)], node := ''core''\<rparr>) \<and>
   fst ` set (reg_blocks
     (uart_ip\<lparr>reg_blocks := [(Some ''core'', uart_core_block)], node := ''core''\<rparr>)) \<noteq>
   Some ` set (named_devices (bus_interfaces
     (uart_ip\<lparr>reg_blocks := [(Some ''core'', uart_core_block)], node := ''core''\<rparr>))) \<union>
   (if has_unnamed_device (bus_interfaces
     (uart_ip\<lparr>reg_blocks := [(Some ''core'', uart_core_block)], node := ''core''\<rparr>))
    then {None} else {})"
  using from_raw_uart_core by (simp add: uart_ip_def uart_bus_def)

text \<open>
  C4, as amended. When the node selector is one of the declared named device interfaces,
  a block that \<open>__post_init__\<close> accepts, and so a block that \<open>from_raw\<close> returns, has
  exactly that one key, however many interfaces are declared.
\<close>

theorem node_selects_single_key:
  "(post_init self = Inr ip \<and> node self \<noteq> [] \<and>
      node self \<in> set (named_devices (bus_interfaces self)) \<longrightarrow>
        fst ` set (reg_blocks ip) = {Some (node self)}) \<and>
   (from_raw c pd raw wh nd = Inr ip' \<and> nd \<noteq> [] \<and>
      nd \<in> set (named_devices (bus_interfaces ip')) \<longrightarrow>
        fst ` set (reg_blocks ip') = {Some nd})"
proof (intro conjI impI)
  assume a: "post_init self = Inr ip \<and> node self \<noteq> [] \<and>
      node self \<in> set (named_devices (bus_interfaces self))"
  then have "ip = self\<lparr>reg_blocks := filter (\<lambda>(k, v). k = Some (node self)) (reg_blocks self)\<rparr>"
    and "fst ` set (reg_blocks ip) =
           Some ` (set (named_devices (bus_interfaces ip)) \<inter> {node self})"
    by (simp_all add: post_init_node)
  with a show "fst ` set (reg_blocks ip) = {Some (node self)}" by auto
next
  assume b: "from_raw c pd raw wh nd = Inr ip' \<and> nd \<noteq> [] \<and>
      nd \<in> set (named_devices (bus_interfaces ip'))"
  then obtain rd pre where nd: "node pre = nd" and post: "post_init pre = Inr ip'"
    by (blast elim: from_raw_pre)
  from post nd b
  have "fst ` set (reg_blocks ip') = Some ` (set (named_devices (bus_interfaces ip')) \<inter> {nd})"
    using post_init_node(3) [OF post] by simp
  with b show "fst ` set (reg_blocks ip') = {Some nd}" by auto
qed

theorem node_selects_single_key_witness:
  "from_raw sample [] uart_raw ''uart.hjson'' ''core'' =
     Inr (uart_ip\<lparr>reg_blocks := [(Some ''core'', uart_core_block)], node := ''core''\<rparr>) \<and>
   fst ` set (reg_blocks
     (uart_ip\<lparr>reg_blocks := [(Some ''core'', uart_core_block)], node := ''core''\<rparr>)) =
   {Some ''core''}"
  using node_selects_single_key
    [of "uart_ip\<lparr>node := ''core''\<rparr>"
        "uart_ip\<lparr>reg_blocks := [(Some ''core'', uart_core_block)], node := ''core''\<rparr>"
        sample "[]" uart_raw "''uart.hjson''" "''core''"
        "uart_ip\<lparr>reg_blocks := [(Some ''core'', uart_core_block)], node := ''core''\<rparr>"]
    from_raw_uart_core
  by (simp add: uart_ip_def uart_bus_def)

text \<open>
  The claim C4 as stated fails for a selector that names no declared interface: built
  for the node \<open>spi\<close>, the block \<open>uart\<close> is returned with no register block at all.
\<close>

theorem node_selects_single_key_counterexample:
  "from_raw sample [] uart_raw ''uart.hjson'' ''spi'' =
     Inr (uart_ip\<lparr>reg_blocks := [], node := ''spi''\<rparr>) \<and>
   fst ` set (reg_blocks (uart_ip\<lparr>reg_blocks := [], node := ''spi''\<rparr>)) \<noteq> {Some ''spi''}"
  using from_raw_uart_spi by simp

lemma isl_if_Inl: "isl (if b then Inl e else m) = (b \<or> isl m)"
  by simp

text \<open>
  C7, as amended. The version is built by \<open>Version\<close> from the entry \<open>version\<close> of the
  checked input, or from \<open>0.0.0\<close> when there is none. With the fallback class (the
  library \<open>semantic_version\<close> is not installed) this step cannot fail and keeps the text
  of the value: \<open>from_raw\<close> then fails exactly when it fails with a version constructor
  that accepts everything. With the library installed the block carries what the
  library's constructor returns.
\<close>

theorem version_resolution:
  "(semantic_version c = None \<longrightarrow> Version c v = Inr (FallbackVersion (py_str c v))) \<and>
   (from_raw c pd raw wh nd = Inr ip \<longrightarrow>
      (\<exists>rd. check_keys c raw (''block at '' @ wh) REQUIRED_FIELDS OPTIONAL_FIELDS = Inr rd \<and>
            Version c (case map_of rd ''version'' of None \<Rightarrow> PStr ''0.0.0'' | Some r \<Rightarrow> r) =
              Inr (version ip))) \<and>
   (semantic_version c = None \<longrightarrow>
      isl (from_raw c pd raw wh nd) =
      isl (from_raw (c\<lparr>semantic_version := Some (\<lambda>r. Inr sv)\<rparr>) pd raw wh nd))"
proof (intro conjI impI)
  assume "semantic_version c = None"
  then show "Version c v = Inr (FallbackVersion (py_str c v))"
    by (simp add: Version_def)
next
  assume ok: "from_raw c pd raw wh nd = Inr ip"
  then obtain rd pre where
    rd: "check_keys c raw (''block at '' @ wh) REQUIRED_FIELDS OPTIONAL_FIELDS = Inr rd"
    and ver: "Version c (get_default rd ''version'' (PStr ''0.0.0'')) = Inr (version pre)"
    and post: "post_init pre = Inr ip"
    by (rule from_raw_pre)
  from post have "ip = pre\<lparr>reg_blocks := reg_blocks ip\<rparr>" by (rule post_init_fields(1))
  then have "version ip = version pre"
    by (metis IpBlock.select_convs(7) IpBlock.surjective IpBlock.update_convs(4))
  with rd ver
  show "\<exists>rd. check_keys c raw (''block at '' @ wh) REQUIRED_FIELDS OPTIONAL_FIELDS = Inr rd \<and>
            Version c (case map_of rd ''version'' of None \<Rightarrow> PStr ''0.0.0'' | Some r \<Rightarrow> r) =
              Inr (version ip)"
    by (auto simp: get_default_def)
next
  assume fb: "semantic_version c = None"
  define c' where "c' = c\<lparr>semantic_version := Some (\<lambda>r. Inr sv)\<rparr>"
  have same:
    "check_keys c' = check_keys c" "check_name c' = check_name c" "check_int c' = check_int c"
    "check_bool c' = check_bool c" "params_from_raw c' = params_from_raw c"
    "apply_defaults c' = apply_defaults c" "bus_from_raw c' = bus_from_raw c"
    "clocking_from_raw c' = clocking_from_raw c" "new_RegBlock c' = new_RegBlock c"
    "build_blocks c' = build_blocks c"
    by (simp_all add: c'_def)
  have ver: "Version c r = Inr (FallbackVersion (py_str c r))"
    "Version c' r = Inr (SemanticVersion sv)" for r
    by (simp_all add: Version_def fb c'_def)
  have "isl (from_raw c pd raw wh nd) = isl (from_raw c' pd raw wh nd)"
    unfolding from_raw_def Let_def same
    by (intro isl_ebind_cong) (simp add: ver isl_if_Inl post_init_def Let_def)
  then show "isl (from_raw c pd raw wh nd) =
      isl (from_raw (c\<lparr>semantic_version := Some (\<lambda>r. Inr sv)\<rparr>) pd raw wh nd)"
    by (simp add: c'_def)
qed

theorem version_resolution_witness:
  "from_raw sample [] uart_raw_bad_version ''uart.hjson'' [] =
     Inr (uart_ip\<lparr>version := FallbackVersion ''one''\<rparr>) \<and>
   from_raw sample [] uart_raw ''uart.hjson'' [] = Inr uart_ip \<and>
   version uart_ip = FallbackVersion ''0.0.0''"
proof -
  have none: "semantic_version sample = None" by (simp add: sample_def)
  have bad: "from_raw sample [] uart_raw_bad_version ''uart.hjson'' [] =
     Inr (uart_ip\<lparr>version := FallbackVersion ''one''\<rparr>)"
    by (simp add: from_raw_def sample_defs Let_def)
  from version_resolution [of sample "PStr ''one''" "[]" uart_raw_bad_version "''uart.hjson''"
      "[]" "uart_ip\<lparr>version := FallbackVersion ''one''\<rparr>" "''1.0.0''"] none bad from_raw_uart
  show ?thesis by (simp add: uart_ip_def)
qed

text \<open>
  The claim C7 as stated fails when the library is installed: the version \<open>one\<close> makes
  \<open>from_raw\<close> raise, and the same input without a version builds the block.
\<close>

theorem version_resolution_counterexample:
  "from_raw sample_with_library [] uart_raw_bad_version ''uart.hjson'' [] =
     Inl (ValueError ''Invalid version string'') \<and>
   from_raw sample_with_library [] uart_raw ''uart.hjson'' [] =
     Inr (uart_ip\<lparr>version := SemanticVersion ''0.0.0''\<rparr>)"
  by (simp add: from_raw_def sample_defs Let_def)

section \<open>Properties of serialization\<close>

text \<open>
  C8. \<open>_asdict\<close> never raises. Its keys are \<open>name\<close>, \<open>regwidth\<close>, \<open>registers\<close>,
  \<open>param_list\<close>, \<open>version\<close>, \<open>bus_interfaces\<close>, \<open>clocking\<close>, \<open>scan\<close>, \<open>scan_reset\<close>
  and \<open>scan_en\<close>; the version is the string \<open>str(self.version)\<close>. The register content
  is what \<open>as_dicts\<close> returns for the block when the mapping is the one block of the
  unnamed interface, and in every other case a mapping over all keys of \<open>reg_blocks\<close>.
\<close>

theorem asdict_shape:
  "\<exists>regs.
     asdict c self =
       Inr [(''name'', OStr (name self)),
            (''regwidth'', OInt (regwidth self)),
            (''registers'', regs),
            (''param_list'', OObj (params_as_dicts c (params self))),
            (''version'', OStr (version_str c (version self))),
            (''bus_interfaces'', OObj (bus_as_dicts c (bus_interfaces self))),
            (''clocking'', OObj (clocking_items c (clocking self))),
            (''scan'', OBool (scan self)),
            (''scan_reset'', OBool (scan_reset self)),
            (''scan_en'', OBool (scan_en self))] \<and>
     ((\<exists>rb. reg_blocks self = [(None, rb)] \<and> regs = OObj (rb_as_dicts c rb)) \<or>
      (\<not> (\<exists>rb. reg_blocks self = [(None, rb)]) \<and>
       regs = OMap (map (\<lambda>(k, v). (k, rb_as_dicts c v)) (reg_blocks self))))"
proof (cases "\<exists>rb. reg_blocks self = [(None, rb)]")
  case True
  then obtain rb where "reg_blocks self = [(None, rb)]" by blast
  then show ?thesis by (simp add: asdict_def)
next
  case False
  have "\<not> (length (reg_blocks self) = 1 \<and> None \<in> set (map fst (reg_blocks self)))"
  proof
    assume a: "length (reg_blocks self) = 1 \<and> None \<in> set (map fst (reg_blocks self))"
    then obtain p where p: "reg_blocks self = [p]"
      by (cases "reg_blocks self") auto
    with a have "fst p = None" by simp
    with p have "reg_blocks self = [(None, snd p)]" by (cases p) simp
    with False show False by blast
  qed
  with False show ?thesis by (auto simp: asdict_def)
qed

theorem asdict_shape_witness:
  "asdict sample (uart_ip\<lparr>reg_blocks := [(None, uart_dma_block)]\<rparr>) =
     Inr [(''name'', OStr ''uart''), (''regwidth'', OInt 32),
          (''registers'', OObj (PList [PDict [(''name'', PStr ''FIFO'')]])),
          (''param_list'', OObj (PList [])), (''version'', OStr ''0.0.0''),
          (''bus_interfaces'',
             OObj (PList [PDict [(''name'', PStr ''core'')], PDict [(''name'', PStr ''dma'')]])),
          (''clocking'', OObj (PList [PStr ''clk_i''])),
          (''scan'', OBool False), (''scan_reset'', OBool False), (''scan_en'', OBool False)] \<and>
   asdict sample (uart_ip\<lparr>reg_blocks := [(Some ''dma'', uart_dma_block)]\<rparr>) =
     Inr [(''name'', OStr ''uart''), (''regwidth'', OInt 32),
          (''registers'', OMap [(Some ''dma'', PList [PDict [(''name'', PStr ''FIFO'')]])]),
          (''param_list'', OObj (PList [])), (''version'', OStr ''0.0.0''),
          (''bus_interfaces'',
             OObj (PList [PDict [(''name'', PStr ''core'')], PDict [(''name'', PStr ''dma'')]])),
          (''clocking'', OObj (PList [PStr ''clk_i''])),
          (''scan'', OBool False), (''scan_reset'', OBool False), (''scan_en'', OBool False)]"
  using asdict_shape [of sample "uart_ip\<lparr>reg_blocks := [(None, uart_dma_block)]\<rparr>"]
    asdict_shape [of sample "uart_ip\<lparr>reg_blocks := [(Some ''dma'', uart_dma_block)]\<rparr>"]
  by (simp add: sample_defs version_str_def)

section \<open>Properties of the alias merge\<close>

lemma alias_from_raw_None:
  assumes "alias_from_raw c scrub raw wh self = (None, self')"
  obtains rd r_bus abi r_impl impl r_target r_regs ablks where
    "check_keys c raw (''block at '' @ wh) REQUIRED_ALIAS_FIELDS OPTIONAL_ALIAS_FIELDS = Inr rd"
    and "getitem rd ''bus_interfaces'' = Inr r_bus"
    and "bus_from_raw c r_bus (''bus_interfaces of block at '' @ wh) = Inr abi"
    and "\<not> has_unnamed_host abi" and "named_hosts abi = []"
    and "\<not> has_unnamed_device abi" and "\<not> has_unnamed_device (bus_interfaces self)"
    and "set (named_devices abi) \<subseteq> set (named_devices (bus_interfaces self))"
    and "getitem rd ''alias_impl'' = Inr r_impl"
    and "check_name c r_impl (''alias_impl of block at '' @ wh) = Inr impl"
    and "getitem rd ''alias_target'' = Inr r_target"
    and "check_name c r_target (''alias_target of block at '' @ wh) = Inr (name self)"
    and "getitem rd ''registers'' = Inr r_regs"
    and "build_blocks c (new_RegBlock c (regwidth self) (params self)) r_regs
           (bus_interfaces self) (clocking self) True = Inr ablks"
    and "fst ` set ablks \<subseteq> fst ` set (reg_blocks self)"
    and "fst ` set ablks = Some ` set (named_devices abi)"
    and "alias_loop c scrub wh abi ablks (self\<lparr>alias_impl := Some impl\<rparr>) = (None, self')"
  using assms unfolding alias_from_raw_def
  by (auto simp: Let_def split: sum.splits if_splits)

lemma update_existing_keys:
  "map_of xs k = Some v \<Longrightarrow> map fst (AList.update k v' xs) = map fst xs"
  by (induction xs) (auto split: if_splits)

lemma alias_loop_noscrub:
  assumes "alias_loop c False wh abi ablks self = (None, self')"
    and "\<forall>rb a rb'. apply_alias c rb a wh = (None, rb') \<longrightarrow> struct rb' = struct rb"
  shows "map fst (reg_blocks self') = map fst (reg_blocks self) \<and>
         (\<forall>k. k \<notin> fst ` set ablks \<longrightarrow>
              map_of (reg_blocks self') k = map_of (reg_blocks self) k \<and>
              map_of (device_hier_paths (bus_interfaces self')) k =
                map_of (device_hier_paths (bus_interfaces self)) k) \<and>
         (\<forall>k rb'. map_of (reg_blocks self') k = Some rb' \<longrightarrow>
              (\<exists>rb. map_of (reg_blocks self) k = Some rb \<and> struct rb' = struct rb)) \<and>
         (\<forall>k \<in> fst ` set ablks. map_of (device_hier_paths (bus_interfaces self')) k =
              map_of (device_hier_paths abi) k) \<and>
         self' = self\<lparr>reg_blocks := reg_blocks self',
                      bus_interfaces := (bus_interfaces self)
                        \<lparr>device_hier_paths := device_hier_paths (bus_interfaces self')\<rparr>\<rparr>"
  using assms
proof (induction ablks arbitrary: self)
  case Nil
  then show ?case by simp
next
  case (Cons p ablks)
  obtain k ab where p: "p = (k, ab)" by (cases p)
  from Cons.prems(1) p obtain hp rb rb1 where
    hp: "map_of (device_hier_paths abi) k = Some hp"
    and rb: "map_of (reg_blocks self) k = Some rb"
    and ap: "apply_alias c rb ab wh = (None, rb1)"
    and rest: "alias_loop c False wh abi ablks
       (self\<lparr>bus_interfaces := (bus_interfaces self)
                \<lparr>device_hier_paths := AList.update k hp (device_hier_paths (bus_interfaces self))\<rparr>,
              reg_blocks := AList.update k rb1 (reg_blocks self)\<rparr>) = (None, self')"
    by (auto simp: Let_def split: option.splits if_splits prod.splits)
  let ?mid = "self\<lparr>bus_interfaces := (bus_interfaces self)
                \<lparr>device_hier_paths := AList.update k hp (device_hier_paths (bus_interfaces self))\<rparr>,
              reg_blocks := AList.update k rb1 (reg_blocks self)\<rparr>"
  note IH = Cons.IH [OF rest Cons.prems(2)]
  from ap Cons.prems(2) have st: "struct rb1 = struct rb" by blast
  have keys: "map fst (reg_blocks self') = map fst (reg_blocks self)"
    using IH rb by (simp add: update_existing_keys)
  have other: "\<forall>k'. k' \<notin> fst ` set (p # ablks) \<longrightarrow>
              map_of (reg_blocks self') k' = map_of (reg_blocks self) k' \<and>
              map_of (device_hier_paths (bus_interfaces self')) k' =
                map_of (device_hier_paths (bus_interfaces self)) k'"
    using IH p by (auto simp: update_conv')
  have str: "\<forall>k' rb'. map_of (reg_blocks self') k' = Some rb' \<longrightarrow>
              (\<exists>rb. map_of (reg_blocks self) k' = Some rb \<and> struct rb' = struct rb)"
  proof (intro allI impI)
    fix k' rb' assume "map_of (reg_blocks self') k' = Some rb'"
    with IH obtain rb2 where a: "map_of (reg_blocks ?mid) k' = Some rb2" and b: "struct rb' = struct rb2"
      by blast
    show "\<exists>rb. map_of (reg_blocks self) k' = Some rb \<and> struct rb' = struct rb"
    proof (cases "k' = k")
      case True
      with a have "rb2 = rb1" by (simp add: update_conv')
      with b st rb True show ?thesis by simp
    next
      case False
      with a b show ?thesis by (simp add: update_conv')
    qed
  qed
  have hier: "\<forall>k' \<in> fst ` set (p # ablks). map_of (device_hier_paths (bus_interfaces self')) k' =
              map_of (device_hier_paths abi) k'"
  proof
    fix k' assume k': "k' \<in> fst ` set (p # ablks)"
    show "map_of (device_hier_paths (bus_interfaces self')) k' = map_of (device_hier_paths abi) k'"
    proof (cases "k' \<in> fst ` set ablks")
      case True
      with IH show ?thesis by blast
    next
      case False
      with k' p have "k' = k" by auto
      with False IH hp show ?thesis by (simp add: update_conv')
    qed
  qed
  have fr: "self' = self\<lparr>reg_blocks := reg_blocks self',
                      bus_interfaces := (bus_interfaces self)
                        \<lparr>device_hier_paths := device_hier_paths (bus_interfaces self')\<rparr>\<rparr>"
    using IH by (cases self, cases self', cases "bus_interfaces self") (force)
  from keys other str hier fr show ?case by blast
qed

lemma alias_loop_scrub:
  assumes "alias_loop c True wh abi ablks self = (None, self')"
    and "distinct (map fst ablks)"
  shows "(\<forall>(k, alias_block) \<in> set ablks.
            \<exists>scrubbed. scrub_alias c alias_block wh = Inr scrubbed \<and>
                        map_of (reg_blocks self') k = Some scrubbed) \<and>
         (\<forall>k. k \<notin> fst ` set ablks \<longrightarrow>
              map_of (reg_blocks self') k = map_of (reg_blocks self) k) \<and>
         (fst ` set ablks \<subseteq> fst ` set (reg_blocks self) \<longrightarrow>
              map fst (reg_blocks self') = map fst (reg_blocks self)) \<and>
         self' = self\<lparr>reg_blocks := reg_blocks self'\<rparr>"
  using assms
proof (induction ablks arbitrary: self)
  case Nil
  then show ?case by simp
next
  case (Cons p ablks)
  obtain k ab where p: "p = (k, ab)" by (cases p)
  from Cons.prems(1) p obtain s where
    s: "scrub_alias c ab wh = Inr s"
    and rest: "alias_loop c True wh abi ablks
                 (self\<lparr>reg_blocks := AList.update k s (reg_blocks self)\<rparr>) = (None, self')"
    by (auto split: option.splits sum.splits)
  from Cons.prems(2) p have dist: "distinct (map fst ablks)" and fresh: "k \<notin> fst ` set ablks"
    by auto
  note IH = Cons.IH [OF rest dist]
  from IH fresh have here: "map_of (reg_blocks self') k = Some s"
    by (simp add: update_conv')
  have repl: "\<forall>(k', alias_block) \<in> set (p # ablks).
            \<exists>scrubbed. scrub_alias c alias_block wh = Inr scrubbed \<and>
                        map_of (reg_blocks self') k' = Some scrubbed"
    using IH here s p by auto
  have other: "\<forall>k'. k' \<notin> fst ` set (p # ablks) \<longrightarrow>
              map_of (reg_blocks self') k' = map_of (reg_blocks self) k'"
    using IH p by (auto simp: update_conv')
  have keys: "fst ` set (p # ablks) \<subseteq> fst ` set (reg_blocks self) \<longrightarrow>
              map fst (reg_blocks self') = map fst (reg_blocks self)"
  proof
    assume sub: "fst ` set (p # ablks) \<subseteq> fst ` set (reg_blocks self)"
    with p have kin: "k \<in> set (map fst (reg_blocks self))" by auto
    then have same: "map fst (AList.update k s (reg_blocks self)) = map fst (reg_blocks self)"
      by (simp add: update_keys)
    with sub have "fst ` set ablks \<subseteq> fst ` set (AList.update k s (reg_blocks self))"
      by (metis (no_types, lifting) list.set_map set_subset_Cons image_mono subset_trans)
    with IH same show "map fst (reg_blocks self') = map fst (reg_blocks self)" by simp
  qed
  have fr: "self' = self\<lparr>reg_blocks := reg_blocks self'\<rparr>"
    using IH by (cases self, cases self') force
  from repl other keys fr show ?case by blast
qed


text \<open>
  C2. If \<open>alias_from_raw\<close> with \<open>scrub = False\<close> returns, the keys of \<open>reg_blocks\<close>
  are as before, in the same order; for every key that the alias file does not name, the
  register block and the hierarchical path are as before; a register block of an aliased
  interface is the result of \<open>apply_alias\<close>, so every attribute \<open>struct\<close> of a block
  that \<open>apply_alias\<close> keeps is kept; the hierarchical path of an aliased interface is
  that of the alias file; and apart from \<open>reg_blocks\<close>, the hierarchical paths and
  \<open>alias_impl\<close>, the block is as before. What \<open>apply_alias\<close> keeps is the contract of
  the register-block collaborator and enters as the hypothesis on \<open>struct\<close>.
\<close>

theorem alias_merge_frame:
  assumes ok: "alias_from_raw c False raw wh self = (None, self')"
    and rd: "check_keys c raw (''block at '' @ wh) REQUIRED_ALIAS_FIELDS OPTIONAL_ALIAS_FIELDS
               = Inr rd"
    and r_bus: "getitem rd ''bus_interfaces'' = Inr r_bus"
    and bus: "bus_from_raw c r_bus (''bus_interfaces of block at '' @ wh) = Inr alias_bus"
    and keeps: "\<forall>rb a rb'. apply_alias c rb a wh = (None, rb') \<longrightarrow> struct rb' = struct rb"
  shows "map fst (reg_blocks self') = map fst (reg_blocks self) \<and>
         (\<forall>k. k \<notin> Some ` set (named_devices alias_bus) \<longrightarrow>
              map_of (reg_blocks self') k = map_of (reg_blocks self) k \<and>
              map_of (device_hier_paths (bus_interfaces self')) k =
                map_of (device_hier_paths (bus_interfaces self)) k) \<and>
         (\<forall>k rb'. map_of (reg_blocks self') k = Some rb' \<longrightarrow>
              (\<exists>rb. map_of (reg_blocks self) k = Some rb \<and> struct rb' = struct rb)) \<and>
         (\<forall>k \<in> Some ` set (named_devices alias_bus).
              map_of (device_hier_paths (bus_interfaces self')) k =
                map_of (device_hier_paths alias_bus) k) \<and>
         self' = self\<lparr>reg_blocks := reg_blocks self',
                      bus_interfaces := (bus_interfaces self)
                        \<lparr>device_hier_paths := device_hier_paths (bus_interfaces self')\<rparr>,
                      alias_impl := alias_impl self'\<rparr>"
proof -
  from ok obtain rd2 r_bus2 abi impl ablks where
    rd2: "check_keys c raw (''block at '' @ wh) REQUIRED_ALIAS_FIELDS OPTIONAL_ALIAS_FIELDS
            = Inr rd2"
    and r_bus2: "getitem rd2 ''bus_interfaces'' = Inr r_bus2"
    and abi: "bus_from_raw c r_bus2 (''bus_interfaces of block at '' @ wh) = Inr abi"
    and names: "fst ` set ablks = Some ` set (named_devices abi)"
    and loop: "alias_loop c False wh abi ablks (self\<lparr>alias_impl := Some impl\<rparr>) = (None, self')"
    by (rule alias_from_raw_None)
  from rd rd2 r_bus r_bus2 bus abi have same: "abi = alias_bus" by simp
  note L = alias_loop_noscrub [OF loop keeps]
  from L have fr: "self' = self\<lparr>alias_impl := Some impl, reg_blocks := reg_blocks self',
                      bus_interfaces := (bus_interfaces self)
                        \<lparr>device_hier_paths := device_hier_paths (bus_interfaces self')\<rparr>\<rparr>"
    by simp
  then have "alias_impl self' = Some impl"
    by (metis IpBlock.select_convs(12) IpBlock.surjective IpBlock.update_convs(4,5,12))
  with fr have frame: "self' = self\<lparr>reg_blocks := reg_blocks self',
                      bus_interfaces := (bus_interfaces self)
                        \<lparr>device_hier_paths := device_hier_paths (bus_interfaces self')\<rparr>,
                      alias_impl := alias_impl self'\<rparr>"
    by (cases self) simp
  from L names same frame show ?thesis by simp
qed

theorem alias_merge_frame_witness:
  "alias_from_raw sample False uart_alias_raw ''alias.hjson'' uart_ip = (None, uart_merged_ip) \<and>
   map fst (reg_blocks uart_merged_ip) = [Some ''core'', Some ''dma''] \<and>
   map_of (reg_blocks uart_merged_ip) (Some ''dma'') = Some uart_dma_block \<and>
   reg_structure uart_merged_core_block = reg_structure uart_core_block"
proof -
  have keeps: "\<forall>rb a rb'. apply_alias sample rb a ''alias.hjson'' = (None, rb') \<longrightarrow>
                 reg_structure rb' = reg_structure rb"
    by (blast intro: sample_apply_alias_structure)
  from alias_merge_frame [OF alias_uart_merge uart_alias_checked(1,2,3) keeps] alias_uart_merge
  show ?thesis
    by (simp add: uart_merged_ip_def uart_ip_def reg_structure_def uart_merged_core_block_def
        uart_core_block_def)
qed

text \<open>
  C3. If \<open>alias_from_raw\<close> with \<open>scrub = True\<close> returns, then for every entry of the
  alias register blocks (a dictionary, so its keys are distinct) the block of that key is
  the alias block as \<open>scrub_alias\<close> leaves it; the block of every other key is as
  before; the keys are as before; and apart from \<open>reg_blocks\<close> and \<open>alias_impl\<close> the
  block is as before.
\<close>

theorem alias_scrub_replaces:
  assumes ok: "alias_from_raw c True raw wh self = (None, self')"
    and rd: "check_keys c raw (''block at '' @ wh) REQUIRED_ALIAS_FIELDS OPTIONAL_ALIAS_FIELDS
               = Inr rd"
    and r_regs: "getitem rd ''registers'' = Inr r_registers"
    and built: "build_blocks c (new_RegBlock c (regwidth self) (params self)) r_registers
                  (bus_interfaces self) (clocking self) True = Inr alias_reg_blocks"
    and dist: "distinct (map fst alias_reg_blocks)"
  shows "(\<forall>(k, alias_block) \<in> set alias_reg_blocks.
            \<exists>scrubbed. scrub_alias c alias_block wh = Inr scrubbed \<and>
                        map_of (reg_blocks self') k = Some scrubbed) \<and>
         (\<forall>k. k \<notin> fst ` set alias_reg_blocks \<longrightarrow>
              map_of (reg_blocks self') k = map_of (reg_blocks self) k) \<and>
         map fst (reg_blocks self') = map fst (reg_blocks self) \<and>
         self' = self\<lparr>reg_blocks := reg_blocks self', alias_impl := alias_impl self'\<rparr>"
proof -
  from ok obtain rd2 r_regs2 abi impl ablks where
    rd2: "check_keys c raw (''block at '' @ wh) REQUIRED_ALIAS_FIELDS OPTIONAL_ALIAS_FIELDS
            = Inr rd2"
    and r_regs2: "getitem rd2 ''registers'' = Inr r_regs2"
    and built2: "build_blocks c (new_RegBlock c (regwidth self) (params self)) r_regs2
           (bus_interfaces self) (clocking self) True = Inr ablks"
    and sub: "fst ` set ablks \<subseteq> fst ` set (reg_blocks self)"
    and loop: "alias_loop c True wh abi ablks (self\<lparr>alias_impl := Some impl\<rparr>) = (None, self')"
    by (rule alias_from_raw_None)
  from rd rd2 r_regs r_regs2 built built2 have same: "ablks = alias_reg_blocks" by simp
  from dist same have "distinct (map fst ablks)" by simp
  note L = alias_loop_scrub [OF loop this]
  from L have fr: "self' = self\<lparr>alias_impl := Some impl, reg_blocks := reg_blocks self'\<rparr>"
    by simp
  then have "alias_impl self' = Some impl"
    by (metis IpBlock.select_convs(12) IpBlock.surjective IpBlock.update_convs(4,12))
  with fr have frame: "self' = self\<lparr>reg_blocks := reg_blocks self',
                                      alias_impl := alias_impl self'\<rparr>"
    by (cases self) simp
  from L sub same frame show ?thesis by simp
qed

theorem alias_scrub_replaces_witness:
  "alias_from_raw sample True uart_alias_raw ''alias.hjson'' uart_ip = (None, uart_scrubbed_ip) \<and>
   scrub_alias sample uart_alias_core_block ''alias.hjson'' = Inr uart_alias_core_block \<and>
   map_of (reg_blocks uart_scrubbed_ip) (Some ''core'') = Some uart_alias_core_block \<and>
   map_of (reg_blocks uart_scrubbed_ip) (Some ''dma'') = Some uart_dma_block"
proof -
  have dist: "distinct (map fst [(Some ''core'', uart_alias_core_block)])" by simp
  from alias_scrub_replaces [OF alias_uart_scrub uart_alias_checked(1,4,5) dist] alias_uart_scrub
  show ?thesis
    by (simp add: uart_scrubbed_ip_def uart_ip_def sample_def sample_scrub_alias_def
        uart_alias_core_block_def)
qed

text \<open>
  C5. When the alias target that \<open>check_name\<close> returns for the entry \<open>alias_target\<close>
  differs from the name of the block, \<open>alias_from_raw\<close> raises, in both modes and
  whatever the registers of the alias file are.
\<close>

theorem alias_target_mismatch_fails:
  assumes "check_keys c raw (''block at '' @ wh) REQUIRED_ALIAS_FIELDS OPTIONAL_ALIAS_FIELDS
             = Inr rd"
    and "getitem rd ''alias_target'' = Inr r_target"
    and "check_name c r_target (''alias_target of block at '' @ wh) = Inr alias_target"
    and "alias_target \<noteq> name self"
  shows "\<exists>e. fst (alias_from_raw c scrub raw wh self) = Some e"
  using assms unfolding alias_from_raw_def
  by (auto simp: Let_def split: sum.splits)

theorem alias_target_mismatch_fails_witness:
  "''spi'' \<noteq> name uart_ip \<and>
   (\<exists>e. fst (alias_from_raw sample False spi_alias_raw ''alias.hjson'' uart_ip) = Some e)"
proof -
  have 1: "check_keys sample spi_alias_raw (''block at '' @ ''alias.hjson'')
             REQUIRED_ALIAS_FIELDS OPTIONAL_ALIAS_FIELDS = Inr spi_alias_fields"
    by (simp add: sample_defs)
  have 2: "getitem spi_alias_fields ''alias_target'' = Inr (PStr ''spi'')"
    by (simp add: sample_defs)
  have 3: "check_name sample (PStr ''spi'') (''alias_target of block at '' @ ''alias.hjson'') =
             Inr ''spi''"
    by (simp add: sample_defs)
  have 4: "''spi'' \<noteq> name uart_ip" by (simp add: uart_ip_def)
  from alias_target_mismatch_fails [OF 1 2 3 4] 4 show ?thesis by simp
qed

text \<open>
  C6. When the block has an unnamed device interface, or the bus interfaces of the alias
  file have a host interface, named or unnamed, or an unnamed device interface,
  \<open>alias_from_raw\<close> raises and the block is exactly as it was.
\<close>

theorem alias_rejects_hosts_and_unnamed:
  assumes "has_unnamed_device (bus_interfaces self) \<or>
           (check_keys c raw (''block at '' @ wh) REQUIRED_ALIAS_FIELDS OPTIONAL_ALIAS_FIELDS
              = Inr rd \<and>
            getitem rd ''bus_interfaces'' = Inr r_bus \<and>
            bus_from_raw c r_bus (''bus_interfaces of block at '' @ wh) = Inr alias_bus \<and>
            (has_unnamed_host alias_bus \<or> named_hosts alias_bus \<noteq> [] \<or>
             has_unnamed_device alias_bus))"
  shows "\<exists>e. alias_from_raw c scrub raw wh self = (Some e, self)"
  using assms unfolding alias_from_raw_def
  by (auto simp: Let_def split: sum.splits)

theorem alias_rejects_hosts_and_unnamed_witness:
  "named_hosts host_alias_bus \<noteq> [] \<and>
   alias_from_raw sample False host_alias_raw ''alias.hjson'' uart_ip =
     (Some (ValueError (''Alias registers cannot be defined for host '' @
                        ''interfaces (in block at {}).'')), uart_ip) \<and>
   alias_from_raw sample False uart_alias_raw ''alias.hjson''
       (uart_ip\<lparr>bus_interfaces := uart_bus\<lparr>has_unnamed_device := True\<rparr>\<rparr>) =
     (Some (ValueError ''Alias registers must use named devices (in block at {}).''),
      uart_ip\<lparr>bus_interfaces := uart_bus\<lparr>has_unnamed_device := True\<rparr>\<rparr>)"
proof -
  have h: "has_unnamed_device (bus_interfaces uart_ip) \<or>
           (check_keys sample host_alias_raw (''block at '' @ ''alias.hjson'')
              REQUIRED_ALIAS_FIELDS OPTIONAL_ALIAS_FIELDS = Inr host_alias_fields \<and>
            getitem host_alias_fields ''bus_interfaces'' = Inr host_alias_bus_raw \<and>
            bus_from_raw sample host_alias_bus_raw
              (''bus_interfaces of block at '' @ ''alias.hjson'') = Inr host_alias_bus \<and>
            (has_unnamed_host host_alias_bus \<or> named_hosts host_alias_bus \<noteq> [] \<or>
             has_unnamed_device host_alias_bus))"
    by (simp add: sample_defs)
  have u: "has_unnamed_device
             (bus_interfaces (uart_ip\<lparr>bus_interfaces := uart_bus\<lparr>has_unnamed_device := True\<rparr>\<rparr>)) \<or>
           (check_keys sample uart_alias_raw (''block at '' @ ''alias.hjson'')
              REQUIRED_ALIAS_FIELDS OPTIONAL_ALIAS_FIELDS = Inr uart_alias_fields \<and>
            getitem uart_alias_fields ''bus_interfaces'' = Inr uart_alias_bus_raw \<and>
            bus_from_raw sample uart_alias_bus_raw
              (''bus_interfaces of block at '' @ ''alias.hjson'') = Inr uart_alias_bus \<and>
            (has_unnamed_host uart_alias_bus \<or> named_hosts uart_alias_bus \<noteq> [] \<or>
             has_unnamed_device uart_alias_bus))"
    by simp
  from alias_rejects_hosts_and_unnamed [OF h, of False]
    alias_rejects_hosts_and_unnamed [OF u, of False]
  show ?thesis
    by (simp add: alias_from_raw_def sample_defs Let_def)
qed




end
